theory Spec2Isabelle
  imports Complex_Main
begin

section \<open>Python values as the endpoints see them\<close>

text \<open>
  The endpoints work on decoded JSON: the listing API's envelope, the raw listings in it,
  the rows of the row store. A decoded JSON value is \<^verbatim>\<open>None\<close>, a bool, an int, a float,
  a str, a list or a dict. A dict is an association list whose first binding of a key is
  the dict's value for it. A finite float is the rational it denotes (both zeros are
  \<open>Finite 0\<close>); the three special floats are constructors of their own.
\<close>

datatype pyfloat = Finite rat | PosInf | NegInf | NaN

datatype json =
    JNull
  | JBool bool
  | JInt int
  | JFloat pyfloat
  | JStr string
  | JList "json list"
  | JObj "(string \<times> json) list"

text \<open>
  What the code can raise. \<open>HTTPException\<close> is FastAPI's, with its status code and
  detail; \<open>HTTPStatusError\<close> is what \<^verbatim>\<open>response.raise_for_status()\<close> raises, with the
  status of the response; \<open>TransportError\<close> is any failure of the HTTP call itself
  (connection refused, time-out); the others are the built-in errors of Python.
\<close>

datatype exn =
    HTTPException int string
  | HTTPStatusError int
  | TransportError
  | JSONDecodeError
  | ValueError
  | TypeError
  | OverflowError
  | AttributeError
  | KeyError

text \<open>
  A raise is the value \<open>Inl e\<close>; \<open>and_then m f\<close> runs \<open>f\<close> on the result of \<open>m\<close> unless
  \<open>m\<close> raised.
\<close>

definition and_then :: "exn + 'a \<Rightarrow> ('a \<Rightarrow> exn + 'b) \<Rightarrow> exn + 'b" where
  "and_then m f = (case m of Inl e \<Rightarrow> Inl e | Inr x \<Rightarrow> f x)"

text \<open>Truth value testing: \<^verbatim>\<open>if x\<close>, \<^verbatim>\<open>not x\<close>, \<^verbatim>\<open>x or y\<close>, \<^verbatim>\<open>filter(None, xs)\<close>.\<close>

fun truthy :: "json \<Rightarrow> bool" where
  "truthy JNull = False"
| "truthy (JBool b) = b"
| "truthy (JInt i) = (i \<noteq> 0)"
| "truthy (JFloat f) = (f \<noteq> Finite 0)"
| "truthy (JStr s) = (s \<noteq> [])"
| "truthy (JList xs) = (xs \<noteq> [])"
| "truthy (JObj kvs) = (kvs \<noteq> [])"

definition py_or :: "json \<Rightarrow> json \<Rightarrow> json" where
  "py_or x y = (if truthy x then x else y)"

text \<open>\<^verbatim>\<open>d.get(key, default)\<close> on a dict, and on a value that may not be one.\<close>

definition dict_get :: "(string \<times> json) list \<Rightarrow> string \<Rightarrow> json \<Rightarrow> json" where
  "dict_get d k dflt = (case map_of d k of None \<Rightarrow> dflt | Some v \<Rightarrow> v)"

fun py_get :: "json \<Rightarrow> string \<Rightarrow> json \<Rightarrow> exn + json" where
  "py_get (JObj d) k dflt = Inr (dict_get d k dflt)"
| "py_get _ k dflt = Inl AttributeError"

text \<open>\<^verbatim>\<open>x[key]\<close> with a string key: only a dict that has the key answers.\<close>

fun py_getitem :: "json \<Rightarrow> string \<Rightarrow> exn + json" where
  "py_getitem (JObj d) k = (case map_of d k of None \<Rightarrow> Inl KeyError | Some v \<Rightarrow> Inr v)"
| "py_getitem _ k = Inl TypeError"

text \<open>
  Iterating a value (\<^verbatim>\<open>for x in v\<close>): a list gives its items, a dict its keys, a str its
  characters; nothing else is iterable.
\<close>

fun py_iter :: "json \<Rightarrow> exn + json list" where
  "py_iter (JList xs) = Inr xs"
| "py_iter (JObj d) = Inr (map (\<lambda>kv. JStr (fst kv)) d)"
| "py_iter (JStr s) = Inr (map (\<lambda>c. JStr [c]) s)"
| "py_iter _ = Inl TypeError"

subsection \<open>Strings\<close>

text \<open>\<^verbatim>\<open>sep.join(parts)\<close> on strings.\<close>

fun join :: "string \<Rightarrow> string list \<Rightarrow> string" where
  "join sep [] = []"
| "join sep [x] = x"
| "join sep (x # y # ys) = x @ sep @ join sep (y # ys)"

text \<open>\<^verbatim>\<open>str(n)\<close> of an int: its decimal numeral.\<close>

definition digit_char :: "nat \<Rightarrow> char" where
  "digit_char d = ''0123456789'' ! d"

fun str_nat :: "nat \<Rightarrow> string" where
  "str_nat n = (if n < 10 then [digit_char n] else str_nat (n div 10) @ [digit_char (n mod 10)])"

declare str_nat.simps [simp del]

definition str_int :: "int \<Rightarrow> string" where
  "str_int i = (if i < 0 then CHR ''-'' # str_nat (nat (- i)) else str_nat (nat i))"

text \<open>
  \<^verbatim>\<open>f"{v}"\<close>: a str is itself, an int its numeral, \<^verbatim>\<open>None\<close>, \<^verbatim>\<open>True\<close> and \<^verbatim>\<open>False\<close>
  their names. The text of a float, a list or a dict is the interpreter's \<^verbatim>\<open>repr\<close>,
  which is taken as the parameter \<open>repr\<close>.
\<close>

fun py_format :: "(json \<Rightarrow> string) \<Rightarrow> json \<Rightarrow> string" where
  "py_format repr (JStr s) = s"
| "py_format repr (JInt i) = str_int i"
| "py_format repr JNull = ''None''"
| "py_format repr (JBool b) = (if b then ''True'' else ''False'')"
| "py_format repr v = repr v"

section \<open>The filter builder\<close>

text \<open>
  \<^verbatim>\<open>build_filter_str\<close> of \<^verbatim>\<open>properties.py\<close>: the list \<open>filters\<close> starts with the three
  base predicates and each \<^verbatim>\<open>if\<close> appends one clause to it. \<^verbatim>\<open>if city:\<close> tests the
  truth value of an optional str (neither \<^verbatim>\<open>None\<close> nor empty), the bounds are tested
  with \<^verbatim>\<open>is not None\<close>. \<open>property_type\<close> is accepted and never read.
\<close>

definition sq :: string where
  \<comment> \<open>the single quote, which a string literal cannot end with\<close>
  "sq = [CHR 0x27]"

definition base_filters :: "string list" where
  "base_filters =
    [''PropertyType eq 'Residential Freehold'' @ sq,
     ''RentalApplicationYN eq true'',
     ''OriginatingSystemName eq 'Toronto Regional Real Estate Board'' @ sq]"

definition build_filter_str ::
  "(json \<Rightarrow> string) \<Rightarrow> string option \<Rightarrow> pyfloat option \<Rightarrow> pyfloat option \<Rightarrow>
   int option \<Rightarrow> int option \<Rightarrow> int option \<Rightarrow> int option \<Rightarrow> string option \<Rightarrow> string" where
  "build_filter_str repr city min_price max_price min_beds max_beds min_baths max_baths
      property_type =
    (let filters = base_filters;
         filters = (case city of None \<Rightarrow> filters
                    | Some c \<Rightarrow> if c = [] then filters
                               else filters @ [''contains(City, '' @ sq @ c @ sq @ '')'']);
         filters = (case min_price of None \<Rightarrow> filters
                    | Some p \<Rightarrow> filters @ [''ListPrice ge '' @ py_format repr (JFloat p)]);
         filters = (case max_price of None \<Rightarrow> filters
                    | Some p \<Rightarrow> filters @ [''ListPrice le '' @ py_format repr (JFloat p)]);
         filters = (case min_beds of None \<Rightarrow> filters
                    | Some n \<Rightarrow> filters @ [''BedroomsTotal ge '' @ str_int n]);
         filters = (case max_beds of None \<Rightarrow> filters
                    | Some n \<Rightarrow> filters @ [''BedroomsTotal le '' @ str_int n]);
         filters = (case min_baths of None \<Rightarrow> filters
                    | Some n \<Rightarrow> filters @ [''BathroomsTotalInteger ge '' @ str_int n]);
         filters = (case max_baths of None \<Rightarrow> filters
                    | Some n \<Rightarrow> filters @ [''BathroomsTotalInteger le '' @ str_int n])
     in join '' and '' filters)"

text \<open>
  The clauses as the specification lists them: one optional clause per criterion, in the
  order city, price bounds, bed bounds, bath bounds.
\<close>

definition spec_optional_clauses ::
  "(json \<Rightarrow> string) \<Rightarrow> string option \<Rightarrow> pyfloat option \<Rightarrow> pyfloat option \<Rightarrow>
   int option \<Rightarrow> int option \<Rightarrow> int option \<Rightarrow> int option \<Rightarrow> string list" where
  "spec_optional_clauses repr city min_price max_price min_beds max_beds min_baths max_baths =
    concat
     [case city of None \<Rightarrow> [] | Some c \<Rightarrow>
        if c = [] then [] else [''contains(City, '' @ sq @ c @ sq @ '')''],
      case min_price of None \<Rightarrow> [] | Some p \<Rightarrow> [''ListPrice ge '' @ py_format repr (JFloat p)],
      case max_price of None \<Rightarrow> [] | Some p \<Rightarrow> [''ListPrice le '' @ py_format repr (JFloat p)],
      case min_beds of None \<Rightarrow> [] | Some n \<Rightarrow> [''BedroomsTotal ge '' @ str_int n],
      case max_beds of None \<Rightarrow> [] | Some n \<Rightarrow> [''BedroomsTotal le '' @ str_int n],
      case min_baths of None \<Rightarrow> [] | Some n \<Rightarrow> [''BathroomsTotalInteger ge '' @ str_int n],
      case max_baths of None \<Rightarrow> [] | Some n \<Rightarrow> [''BathroomsTotalInteger le '' @ str_int n]]"

text \<open>
  The \<^verbatim>\<open>repr\<close> of a float that is a whole number of fewer than 17 digits is its numeral
  followed by \<^verbatim>\<open>.0\<close>; this stand-in for the interpreter's \<^verbatim>\<open>repr\<close> is what the
  functions are run with on concrete inputs.
\<close>

fun repr_whole :: "json \<Rightarrow> string" where
  "repr_whole (JFloat (Finite q)) = str_int \<lfloor>q\<rfloor> @ ''.0''"
| "repr_whole v = ''?''"

section \<open>The property transformer\<close>

subsection \<open>\<^verbatim>\<open>int(x)\<close>\<close>

text \<open>
  \<^verbatim>\<open>int\<close> of a str. White space is skipped on both sides: the six characters of C's
  \<^verbatim>\<open>isspace\<close> (tab, line feed, vertical tab, form feed, carriage return, space) and,
  beyond ASCII, next line (133) and no-break space (160); the separators 28 to 31 are not
  skipped. Then come an optional sign and decimal digits, where one underscore may stand
  between two digits. A numeral of more than 4300 digits, leading zeros counted, sign and
  underscores not, is refused (the interpreter's default limit). Anything else raises
  \<^verbatim>\<open>ValueError\<close>. Characters are the 256 of \<^typ>\<open>char\<close>.
\<close>

definition py_isspace :: "char \<Rightarrow> bool" where
  "py_isspace c = ((of_char c :: nat) \<in> {9, 10, 11, 12, 13, 32, 133, 160})"

definition INT_MAX_STR_DIGITS :: nat where
  "INT_MAX_STR_DIGITS = 4300"

definition strip :: "string \<Rightarrow> string" where
  "strip s = rev (dropWhile py_isspace (rev (dropWhile py_isspace s)))"

definition is_digit :: "char \<Rightarrow> bool" where
  "is_digit c = (48 \<le> (of_char c :: nat) \<and> (of_char c :: nat) \<le> 57)"

definition digit_val :: "char \<Rightarrow> nat" where
  "digit_val c = of_char c - 48"

fun digits_value :: "nat \<Rightarrow> string \<Rightarrow> nat option" where
  "digits_value acc [] = Some acc"
| "digits_value acc [c] = (if is_digit c then Some (acc * 10 + digit_val c) else None)"
| "digits_value acc (c # d # cs) =
     (if is_digit c then digits_value (acc * 10 + digit_val c) (d # cs)
      else if c = CHR ''_'' \<and> is_digit d then digits_value acc (d # cs)
      else None)"

definition parse_digits :: "string \<Rightarrow> nat option" where
  "parse_digits s =
     (case s of
        [] \<Rightarrow> None
      | c # cs \<Rightarrow>
          if is_digit c \<and> length (filter is_digit s) \<le> INT_MAX_STR_DIGITS
          then digits_value 0 s else None)"

definition int_of_str :: "string \<Rightarrow> int option" where
  "int_of_str s =
     (case strip s of
        [] \<Rightarrow> None
      | c # cs \<Rightarrow>
          if c = CHR ''-'' then map_option (\<lambda>n. - int n) (parse_digits cs)
          else if c = CHR ''+'' then map_option int (parse_digits cs)
          else map_option int (parse_digits (c # cs)))"

text \<open>
  \<^verbatim>\<open>int\<close> of a decoded JSON value: an int is itself, a bool 0 or 1, a finite float is
  truncated towards zero, a str is parsed; the special floats, \<^verbatim>\<open>None\<close>, lists and
  dicts raise.
\<close>

fun py_int :: "json \<Rightarrow> exn + int" where
  "py_int (JInt i) = Inr i"
| "py_int (JBool b) = Inr (if b then 1 else 0)"
| "py_int (JFloat (Finite q)) = Inr (if 0 \<le> q then \<lfloor>q\<rfloor> else \<lceil>q\<rceil>)"
| "py_int (JFloat NaN) = Inl ValueError"
| "py_int (JFloat PosInf) = Inl OverflowError"
| "py_int (JFloat NegInf) = Inl OverflowError"
| "py_int (JStr s) = (case int_of_str s of None \<Rightarrow> Inl ValueError | Some i \<Rightarrow> Inr i)"
| "py_int JNull = Inl TypeError"
| "py_int (JList xs) = Inl TypeError"
| "py_int (JObj d) = Inl TypeError"

subsection \<open>\<^verbatim>\<open>transform_property\<close>\<close>

text \<open>\<^verbatim>\<open>sep.join(items)\<close> raises \<^verbatim>\<open>TypeError\<close> on an item that is not a str.\<close>

fun str_items :: "json list \<Rightarrow> exn + string list" where
  "str_items [] = Inr []"
| "str_items (JStr s # vs) = and_then (str_items vs) (\<lambda>ss. Inr (s # ss))"
| "str_items (_ # vs) = Inl TypeError"

definition py_join :: "string \<Rightarrow> json list \<Rightarrow> exn + string" where
  "py_join sep items = and_then (str_items items) (\<lambda>ss. Inr (join sep ss))"

definition address_parts :: "(string \<times> json) list \<Rightarrow> json list" where
  "address_parts mls_property =
    [dict_get mls_property ''PropertyAddress'' (JStr []),
     dict_get mls_property ''City'' (JStr []),
     dict_get mls_property ''StateOrProvince'' (JStr []),
     dict_get mls_property ''PostalCode'' (JStr []),
     py_or (dict_get mls_property ''Country'' (JStr [])) (JStr ''CA'')]"

definition address_str :: "(string \<times> json) list \<Rightarrow> exn + string" where
  "address_str mls_property = py_join '', '' (filter truthy (address_parts mls_property))"

text \<open>
  The returned dict is built entry by entry, so the first expression that raises decides:
  the address, then \<open>beds\<close>, \<open>baths\<close>, \<open>parking\<close>.
\<close>

definition transform_property ::
  "(string \<times> json) list \<Rightarrow> json list option \<Rightarrow> exn + (string \<times> json) list" where
  "transform_property mls_property media_urls =
    (let media_urls = (case media_urls of None \<Rightarrow> [] | Some urls \<Rightarrow> urls) in
     and_then (address_str mls_property) (\<lambda>address.
     and_then (py_int (py_or (dict_get mls_property ''BedroomsTotal'' (JInt 0)) (JInt 0))) (\<lambda>beds.
     and_then (py_int (py_or (dict_get mls_property ''BathroomsTotalInteger'' (JInt 0)) (JInt 0)))
       (\<lambda>baths.
     and_then (py_int (py_or (dict_get mls_property ''ParkingTotal'' (JInt 0)) (JInt 0)))
       (\<lambda>parking.
     Inr [(''id'', dict_get mls_property ''ListingKey'' (JStr [])),
          (''images'', JList media_urls),
          (''price'', dict_get mls_property ''ListPrice'' (JStr [])),
          (''address'', JStr address),
          (''added'', dict_get mls_property ''ListingContractDate'' (JStr [])),
          (''beds'', JInt beds),
          (''baths'', JInt baths),
          (''parking'', JInt parking),
          (''sqft'', dict_get mls_property ''LivingArea'' (JStr [])),
          (''location'', dict_get mls_property ''City'' (JStr [])),
          (''areaCode'', dict_get mls_property ''Area'' (JStr [])),
          (''propertyType'', dict_get mls_property ''PropertyType'' (JStr [])),
          (''availableDate'', dict_get mls_property ''AvailableDate'' (JStr [])),
          (''leaseTerms'', dict_get mls_property ''LeaseTerm'' (JStr [])),
          (''description'',
             py_or (dict_get mls_property ''PublicRemarks'' (JStr []))
               (py_or (dict_get mls_property ''PrivateRemarks'' (JStr [])) (JStr [])))])))))"

text \<open>
  Address composition as the specification words it: the non-empty ones of street, city,
  region, postal code and country, the country being \<^verbatim>\<open>CA\<close> when it is empty, joined
  by a comma and a space.
\<close>

definition spec_compose_address ::
  "string \<Rightarrow> string \<Rightarrow> string \<Rightarrow> string \<Rightarrow> string \<Rightarrow> string" where
  "spec_compose_address street city region postal country =
     join '', '' (filter (\<lambda>s. s \<noteq> [])
       [street, city, region, postal, if country = [] then ''CA'' else country])"

subsection \<open>Listings of the expected types\<close>

text \<open>
  An address component is expected to be absent, \<^verbatim>\<open>None\<close> or a str; a count (bedrooms,
  bathrooms, parking) to be absent, falsy, or a value that \<^verbatim>\<open>int\<close> accepts.
\<close>

fun is_text :: "json \<Rightarrow> bool" where
  "is_text JNull = True"
| "is_text (JStr s) = True"
| "is_text _ = False"

fun text_of :: "json \<Rightarrow> string" where
  "text_of (JStr s) = s"
| "text_of _ = []"

fun numeric :: "json \<Rightarrow> bool" where
  "numeric (JInt i) = True"
| "numeric (JBool b) = True"
| "numeric (JFloat (Finite q)) = True"
| "numeric (JStr s) = (int_of_str s \<noteq> None)"
| "numeric _ = False"

definition textual :: "(string \<times> json) list \<Rightarrow> string \<Rightarrow> bool" where
  "textual d k = is_text (dict_get d k (JStr []))"

definition field_text :: "(string \<times> json) list \<Rightarrow> string \<Rightarrow> string" where
  "field_text d k = text_of (dict_get d k (JStr []))"

definition count_ok :: "(string \<times> json) list \<Rightarrow> string \<Rightarrow> bool" where
  "count_ok d k = (let v = dict_get d k (JInt 0) in if truthy v then numeric v else True)"

definition transformable :: "(string \<times> json) list \<Rightarrow> bool" where
  "transformable d =
    (textual d ''PropertyAddress'' \<and> textual d ''City'' \<and> textual d ''StateOrProvince''
     \<and> textual d ''PostalCode'' \<and> textual d ''Country''
     \<and> count_ok d ''BedroomsTotal'' \<and> count_ok d ''BathroomsTotalInteger''
     \<and> count_ok d ''ParkingTotal'')"

definition example_listing :: "(string \<times> json) list" where
  "example_listing =
    [(''PropertyAddress'', JStr ''123 Main''), (''City'', JStr []),
     (''StateOrProvince'', JStr ''ON''), (''PostalCode'', JStr ''M1M1M1''),
     (''Country'', JStr [])]"

text \<open>
  Listings to run the transformer on: one of the expected types, whose bedroom count is a
  numeral with white space around it, whose bathroom count is the float 2.5 and whose
  parking count is \<^verbatim>\<open>None\<close>; one whose bedroom count is a word; one whose bedroom count
  is a digit after the separator character 28.
\<close>

definition typed_listing :: "(string \<times> json) list" where
  "typed_listing =
    [(''ListingKey'', JStr ''k''), (''PropertyAddress'', JStr ''1 Main''),
     (''BedroomsTotal'', JStr '' 3 ''), (''BathroomsTotalInteger'', JFloat (Finite (5 / 2))),
     (''ParkingTotal'', JNull)]"

definition word_listing :: "(string \<times> json) list" where
  "word_listing = [(''BedroomsTotal'', JStr ''abc'')]"

definition separator_listing :: "(string \<times> json) list" where
  "separator_listing = [(''BedroomsTotal'', JStr [CHR 0x1C, CHR ''7''])]"

section \<open>Outbound HTTP calls\<close>

text \<open>
  A call of the HTTP client is the request it is given: method, URL, headers, the JSON
  payload if any, and the \<^verbatim>\<open>timeout\<close> argument, \<open>None\<close> when the call passes none. The
  client is a function from the request to what the call does: it raises
  (\<open>Inl TransportError\<close>) or returns a response, whose body \<^verbatim>\<open>response.json()\<close>
  decodes unless it is not JSON (\<open>resp_json = None\<close>).
\<close>

datatype http_method = GET | POST | DELETE

record request =
  req_method :: http_method
  req_url :: string
  req_headers :: "(string \<times> string) list"
  req_json :: "json option"
  req_timeout :: "pyfloat option"

record response =
  resp_status :: int
  resp_text :: string
  resp_json :: "json option"

type_synonym client = "request \<Rightarrow> exn + response"

definition raise_for_status :: "response \<Rightarrow> exn + response" where
  "raise_for_status r =
     (if 200 \<le> resp_status r \<and> resp_status r < 300 then Inr r
      else Inl (HTTPStatusError (resp_status r)))"

definition response_json :: "response \<Rightarrow> exn + json" where
  "response_json r = (case resp_json r of None \<Rightarrow> Inl JSONDecodeError | Some j \<Rightarrow> Inr j)"

text \<open>The environment variables the modules read at import.\<close>

record config =
  MLS_API_URL :: "string option"
  MLS_AUTH_TOKEN :: "string option"
  SUPABASE_URL :: "string option"
  SUPABASE_ANON_KEY :: "string option"

definition env_truthy :: "string option \<Rightarrow> bool" where
  "env_truthy v = (case v of None \<Rightarrow> False | Some s \<Rightarrow> s \<noteq> [])"

definition fmt_env :: "string option \<Rightarrow> string" where
  \<comment> \<open>an environment variable inside an f-string\<close>
  "fmt_env v = (case v of None \<Rightarrow> ''None'' | Some s \<Rightarrow> s)"

definition REQUEST_TIMEOUT :: pyfloat where
  "REQUEST_TIMEOUT = Finite 30"

definition CONCURRENCY_LIMIT :: nat where
  "CONCURRENCY_LIMIT = 4"

definition MLS_CONFIGURED :: "config \<Rightarrow> bool" where
  "MLS_CONFIGURED cfg = (env_truthy (MLS_API_URL cfg) \<and> env_truthy (MLS_AUTH_TOKEN cfg))"

text \<open>
  Environments, clients and a stand-in for \<^verbatim>\<open>str(e)\<close> (the name of the exception's
  class), to run the endpoints on concrete inputs.
\<close>

definition env_on :: config where
  "env_on = \<lparr>MLS_API_URL = Some ''https://mls.example'', MLS_AUTH_TOKEN = Some ''token'',
              SUPABASE_URL = Some ''https://db.example'', SUPABASE_ANON_KEY = Some ''anon''\<rparr>"

definition env_off :: config where
  "env_off = \<lparr>MLS_API_URL = None, MLS_AUTH_TOKEN = None,
               SUPABASE_URL = None, SUPABASE_ANON_KEY = None\<rparr>"

definition down :: client where
  "down req = Inl TransportError"

definition all_down :: "nat \<Rightarrow> client" where
  "all_down i = down"

definition answers :: "int \<Rightarrow> string \<Rightarrow> json option \<Rightarrow> client" where
  "answers status body decoded req =
     Inr \<lparr>resp_status = status, resp_text = body, resp_json = decoded\<rparr>"

definition answers_timed :: "int \<Rightarrow> string \<Rightarrow> json option \<Rightarrow> client" where
  \<comment> \<open>answers the calls made with the time-out of 30, fails the others\<close>
  "answers_timed status body decoded req =
     (if req_timeout req = Some (Finite 30) then answers status body decoded req
      else Inl TransportError)"

fun exc_name :: "exn \<Rightarrow> string" where
  "exc_name (HTTPException status detail) = ''HTTPException''"
| "exc_name (HTTPStatusError status) = ''HTTPStatusError''"
| "exc_name TransportError = ''TransportError''"
| "exc_name JSONDecodeError = ''JSONDecodeError''"
| "exc_name ValueError = ''ValueError''"
| "exc_name TypeError = ''TypeError''"
| "exc_name OverflowError = ''OverflowError''"
| "exc_name AttributeError = ''AttributeError''"
| "exc_name KeyError = ''KeyError''"

section \<open>The listing client\<close>

definition mls_request :: "config \<Rightarrow> string \<Rightarrow> request" where
  \<comment> \<open>the \<^verbatim>\<open>client.get\<close> of \<^verbatim>\<open>fetch_mls_data\<close> and of \<^verbatim>\<open>fetch_largest_media\<close>\<close>
  "mls_request cfg url =
    \<lparr>req_method = GET, req_url = url,
     req_headers = [(''Authorization'', ''Bearer '' @ fmt_env (MLS_AUTH_TOKEN cfg)),
                    (''Accept'', ''application/json'')],
     req_json = None, req_timeout = Some REQUEST_TIMEOUT\<rparr>"

definition fetch_mls_data :: "config \<Rightarrow> client \<Rightarrow> string \<Rightarrow> exn + json" where
  "fetch_mls_data cfg send url =
    (if \<not> MLS_CONFIGURED cfg then Inl (HTTPException 503 ''MLS API not configured.'')
     else
       and_then (send (mls_request cfg url)) (\<lambda>response.
       and_then (raise_for_status response) (\<lambda>_.
       and_then (response_json response) (\<lambda>body.
       py_get body ''value'' (JList [])))))"

definition media_url :: "config \<Rightarrow> (json \<Rightarrow> string) \<Rightarrow> json \<Rightarrow> string" where
  "media_url cfg repr listing_key =
     fmt_env (MLS_API_URL cfg) @ ''/Media?$filter=ResourceRecordKey eq '' @ sq
       @ py_format repr listing_key @ sq @ '' and LargePhotoExists eq true&$orderby=Order''"

text \<open>
  The comprehension of \<^verbatim>\<open>fetch_largest_media\<close>: an item is kept when its \<^verbatim>\<open>MediaURL\<close> is
  truthy; an item that is not a dict raises.
\<close>

fun media_urls_of :: "json list \<Rightarrow> exn + json list" where
  "media_urls_of [] = Inr []"
| "media_urls_of (item # items) =
     and_then (py_get item ''MediaURL'' JNull) (\<lambda>u.
     if truthy u
     then and_then (py_get item ''MediaURL'' (JStr [])) (\<lambda>v.
          and_then (media_urls_of items) (\<lambda>rest. Inr (v # rest)))
     else media_urls_of items)"

definition fetch_largest_media :: "config \<Rightarrow> (json \<Rightarrow> string) \<Rightarrow> client \<Rightarrow> json \<Rightarrow> json list" where
  "fetch_largest_media cfg repr send listing_key =
    (if \<not> MLS_CONFIGURED cfg then []
     else
       case and_then (send (mls_request cfg (media_url cfg repr listing_key))) (\<lambda>response.
            and_then (raise_for_status response) (\<lambda>_.
            and_then (response_json response) (\<lambda>body.
            and_then (py_get body ''value'' (JList [])) (\<lambda>media_data.
            and_then (py_iter media_data) media_urls_of))))
       of Inl e \<Rightarrow> [] | Inr urls \<Rightarrow> urls)"

section \<open>The fan-out\<close>

text \<open>
  One unit of work. The semaphore decides when the media fetch runs, not what the unit
  returns; its scheduling is the step relation of the last section.
\<close>

definition get_transformed_property ::
  "config \<Rightarrow> (json \<Rightarrow> string) \<Rightarrow> client \<Rightarrow> json \<Rightarrow> exn + (string \<times> json) list option" where
  "get_transformed_property cfg repr send mls_property =
    (case mls_property of
       JObj d \<Rightarrow>
         (let listing_key = dict_get d ''ListingKey'' JNull in
          if \<not> truthy listing_key then Inr None
          else
            (let media_urls = fetch_largest_media cfg repr send listing_key in
             and_then (transform_property d (Some media_urls)) (\<lambda>v. Inr (Some v))))
     | _ \<Rightarrow> Inl AttributeError)"

text \<open>
  \<^verbatim>\<open>asyncio.gather\<close>: the results in the order of the units, or the exception of a unit
  that raised. When several units raise, \<^verbatim>\<open>gather\<close> propagates the one that raises first
  in time; the model takes the first in the order of the units.
\<close>

fun gather :: "(exn + 'a) list \<Rightarrow> exn + 'a list" where
  "gather [] = Inr []"
| "gather (r # rs) = and_then r (\<lambda>x. and_then (gather rs) (\<lambda>xs. Inr (x # xs)))"

text \<open>
  The units of a batch: unit \<open>i\<close> makes its media call on \<open>media_send i\<close>, so that the
  answers of the media endpoint may differ from one unit to the next.
\<close>

definition fan_out ::
  "config \<Rightarrow> (json \<Rightarrow> string) \<Rightarrow> (nat \<Rightarrow> client) \<Rightarrow> json list \<Rightarrow>
   exn + (string \<times> json) list list" where
  "fan_out cfg repr media_send mls_properties =
     and_then
       (gather (map (\<lambda>(i, prop). get_transformed_property cfg repr (media_send i) prop)
                  (enumerate 0 mls_properties)))
       (\<lambda>results. Inr (List.map_filter (\<lambda>result. result) results))"

text \<open>
  \<^verbatim>\<open>get_properties\<close>: the URL, the body of the \<^verbatim>\<open>try\<close>, then its two handlers. \<open>exc_str\<close> is
  \<^verbatim>\<open>str(e)\<close>, the message of an exception, which the libraries compose.
\<close>

definition properties_url ::
  "config \<Rightarrow> (json \<Rightarrow> string) \<Rightarrow> int \<Rightarrow> string option \<Rightarrow> pyfloat option \<Rightarrow> pyfloat option \<Rightarrow>
   int option \<Rightarrow> int option \<Rightarrow> int option \<Rightarrow> int option \<Rightarrow> string option \<Rightarrow> string" where
  "properties_url cfg repr limit city min_price max_price min_beds max_beds min_baths max_baths
      property_type =
    (let filter_str = build_filter_str repr city min_price max_price min_beds max_beds
                        min_baths max_baths property_type;
         url = fmt_env (MLS_API_URL cfg) @ ''/Property?$top='' @ str_int limit;
         url = (if filter_str \<noteq> [] then url @ ''&$filter='' @ filter_str else url)
     in url)"

definition get_properties_body ::
  "config \<Rightarrow> (json \<Rightarrow> string) \<Rightarrow> client \<Rightarrow> (nat \<Rightarrow> client) \<Rightarrow> int \<Rightarrow> string option \<Rightarrow>
   pyfloat option \<Rightarrow> pyfloat option \<Rightarrow> int option \<Rightarrow> int option \<Rightarrow> int option \<Rightarrow> int option \<Rightarrow>
   string option \<Rightarrow> exn + (string \<times> json) list list" where
  "get_properties_body cfg repr send media_send limit city min_price max_price min_beds max_beds
      min_baths max_baths property_type =
    (let url = properties_url cfg repr limit city min_price max_price min_beds max_beds
                 min_baths max_baths property_type
     in and_then (fetch_mls_data cfg send url) (\<lambda>mls_properties.
        if \<not> truthy mls_properties then Inr []
        else and_then (py_iter mls_properties) (fan_out cfg repr media_send)))"

definition get_properties ::
  "config \<Rightarrow> (json \<Rightarrow> string) \<Rightarrow> (exn \<Rightarrow> string) \<Rightarrow> client \<Rightarrow> (nat \<Rightarrow> client) \<Rightarrow> int \<Rightarrow>
   string option \<Rightarrow> pyfloat option \<Rightarrow> pyfloat option \<Rightarrow> int option \<Rightarrow> int option \<Rightarrow>
   int option \<Rightarrow> int option \<Rightarrow> string option \<Rightarrow> exn + (string \<times> json) list list" where
  "get_properties cfg repr exc_str send media_send limit city min_price max_price min_beds
      max_beds min_baths max_baths property_type =
    (case get_properties_body cfg repr send media_send limit city min_price max_price
            min_beds max_beds min_baths max_baths property_type of
       Inl (HTTPException status detail) \<Rightarrow> Inl (HTTPException status detail)
     | Inl e \<Rightarrow> Inl (HTTPException 500 (''Error fetching properties: '' @ exc_str e))
     | Inr properties \<Rightarrow> Inr properties)"

definition raised_status :: "exn + 'a \<Rightarrow> int option" where
  \<comment> \<open>the status code of the \<^verbatim>\<open>HTTPException\<close> an endpoint raised, if it raised one\<close>
  "raised_status result =
     (case result of Inl (HTTPException status detail) \<Rightarrow> Some status | _ \<Rightarrow> None)"

text \<open>
  What the fan-out is expected to return: \<open>has_key\<close> is the test \<^verbatim>\<open>if not listing_key\<close>
  negated, a listing is \<open>enrichable\<close> when it is a dict that the transformer accepts if it
  has a key, a media fetch has \<open>media_failed\<close> when the call raises or answers with a
  status outside 200..299, and \<open>enriched_from\<close> relates unit \<open>i\<close> and its listing to the
  entry returned for it.
\<close>

definition has_key :: "json \<Rightarrow> bool" where
  "has_key p = (case p of JObj d \<Rightarrow> truthy (dict_get d ''ListingKey'' JNull) | _ \<Rightarrow> False)"

definition key_of :: "json \<Rightarrow> json" where
  "key_of p = (case p of JObj d \<Rightarrow> dict_get d ''ListingKey'' JNull | _ \<Rightarrow> JNull)"

definition enrichable :: "json \<Rightarrow> bool" where
  "enrichable p =
     (case p of JObj d \<Rightarrow> if truthy (dict_get d ''ListingKey'' JNull) then transformable d else True
      | _ \<Rightarrow> False)"

definition media_failed :: "config \<Rightarrow> (json \<Rightarrow> string) \<Rightarrow> client \<Rightarrow> json \<Rightarrow> bool" where
  "media_failed cfg repr send listing_key =
     (case send (mls_request cfg (media_url cfg repr listing_key)) of
        Inl e \<Rightarrow> True
      | Inr r \<Rightarrow> resp_status r < 200 \<or> 300 \<le> resp_status r)"

definition enriched_from ::
  "config \<Rightarrow> (json \<Rightarrow> string) \<Rightarrow> (nat \<Rightarrow> client) \<Rightarrow> nat \<times> json \<Rightarrow> (string \<times> json) list \<Rightarrow> bool" where
  "enriched_from cfg repr media_send ip v =
     (dict_get v ''id'' JNull = key_of (snd ip)
      \<and> dict_get v ''images'' JNull =
          JList (if media_failed cfg repr (media_send (fst ip)) (key_of (snd ip)) then []
                 else fetch_largest_media cfg repr (media_send (fst ip)) (key_of (snd ip))))"

text \<open>
  The transformer raises on a listing when the listing has a key, so that its unit of work
  reaches the transformer, and the transformer raises on it; whether it raises does not
  depend on the images.
\<close>

definition transformer_raises :: "json \<Rightarrow> bool" where
  "transformer_raises p =
     (case p of
        JObj d \<Rightarrow> truthy (dict_get d ''ListingKey'' JNull)
                  \<and> (case transform_property d None of Inl e \<Rightarrow> True | Inr v \<Rightarrow> False)
      | _ \<Rightarrow> False)"

text \<open>
  Listings to run the fan-out on, and a media endpoint that answers unit 0 and fails for
  every other unit. \<open>listing_keyless\<close> has no listing key; \<open>listing_bad\<close> has one, and a
  bedroom count that is not a number.
\<close>

definition media_answer :: json where
  "media_answer = JObj [(''value'', JList [JObj [(''MediaURL'', JStr ''https://img.example/1.jpg'')]])]"

definition first_up :: "nat \<Rightarrow> client" where
  "first_up i = (if i = 0 then answers 200 [] (Some media_answer) else down)"

definition listing_a :: json where
  "listing_a = JObj [(''ListingKey'', JStr ''a''), (''BedroomsTotal'', JInt 3)]"

definition listing_keyless :: json where
  "listing_keyless = JObj [(''City'', JStr ''Toronto'')]"

definition listing_b :: json where
  "listing_b = JObj [(''ListingKey'', JStr ''b''), (''City'', JStr ''Toronto'')]"

definition listing_bad :: json where
  "listing_bad = JObj [(''ListingKey'', JStr ''k1''), (''BedroomsTotal'', JStr ''abc'')]"

text \<open>
  The envelope of a listing answer with two listings, the second being \<open>listing_bad\<close>.
\<close>

definition bad_batch_answer :: json where
  "bad_batch_answer = JObj [(''value'', JList [listing_a, listing_bad])]"

section \<open>Cart and wishlist\<close>

text \<open>
  \<open>user_id\<close> is \<^verbatim>\<open>user["sub"]\<close> of the authenticated user, \<open>auth_header\<close> the
  \<^verbatim>\<open>Authorization\<close> header of the incoming request (\<open>None\<close> when there is no request or
  no such header). None of the row-store calls passes a \<^verbatim>\<open>timeout\<close>.
\<close>

definition store_headers ::
  "config \<Rightarrow> string option \<Rightarrow> (string \<times> string) list \<Rightarrow> (string \<times> string) list" where
  "store_headers cfg auth_header headers =
    (let headers = (if env_truthy (SUPABASE_ANON_KEY cfg)
                    then headers @ [(''apikey'', fmt_env (SUPABASE_ANON_KEY cfg))] else headers);
         headers = (if env_truthy auth_header
                    then headers @ [(''Authorization'', fmt_env auth_header)] else headers)
     in headers)"

definition add_headers :: "(string \<times> string) list" where
  "add_headers = [(''Content-Type'', ''application/json''), (''Prefer'', ''return=representation'')]"

definition add_payload :: "string \<Rightarrow> string \<Rightarrow> json" where
  "add_payload user_id property_id =
     JObj [(''user_id'', JStr user_id), (''property_id'', JStr property_id)]"

subsection \<open>\<^verbatim>\<open>cart.py\<close>\<close>

definition CART_ENDPOINT :: "config \<Rightarrow> string" where
  "CART_ENDPOINT cfg = fmt_env (SUPABASE_URL cfg) @ ''/rest/v1/cart''"

definition add_to_cart_request :: "config \<Rightarrow> string \<Rightarrow> string \<Rightarrow> string option \<Rightarrow> request" where
  "add_to_cart_request cfg property_id user_id auth_header =
    \<lparr>req_method = POST, req_url = CART_ENDPOINT cfg,
     req_headers = store_headers cfg auth_header add_headers,
     req_json = Some (add_payload user_id property_id), req_timeout = None\<rparr>"

definition add_to_cart :: "config \<Rightarrow> client \<Rightarrow> string \<Rightarrow> string \<Rightarrow> string option \<Rightarrow> exn + json" where
  "add_to_cart cfg send property_id user_id auth_header =
    and_then (send (add_to_cart_request cfg property_id user_id auth_header)) (\<lambda>resp.
      if resp_status resp = 201 \<or> resp_status resp = 200 then Inr (JObj [(''ok'', JBool True)])
      else if resp_status resp = 409
      then Inr (JObj [(''ok'', JBool True), (''message'', JStr ''Already in cart'')])
      else Inl (HTTPException (resp_status resp) (resp_text resp)))"

definition remove_from_cart_request ::
  "config \<Rightarrow> string \<Rightarrow> string \<Rightarrow> string option \<Rightarrow> request" where
  "remove_from_cart_request cfg property_id user_id auth_header =
    \<lparr>req_method = DELETE,
     req_url = CART_ENDPOINT cfg @ ''?user_id=eq.'' @ user_id @ ''&property_id=eq.'' @ property_id,
     req_headers = store_headers cfg auth_header [],
     req_json = None, req_timeout = None\<rparr>"

definition remove_from_cart ::
  "config \<Rightarrow> client \<Rightarrow> string \<Rightarrow> string \<Rightarrow> string option \<Rightarrow> exn + json" where
  "remove_from_cart cfg send property_id user_id auth_header =
    and_then (send (remove_from_cart_request cfg property_id user_id auth_header)) (\<lambda>resp.
      if \<not> (resp_status resp = 204 \<or> resp_status resp = 200)
      then Inl (HTTPException (resp_status resp) (resp_text resp))
      else Inr (JObj [(''ok'', JBool True)]))"

definition list_cart_request :: "config \<Rightarrow> string \<Rightarrow> string option \<Rightarrow> request" where
  "list_cart_request cfg user_id auth_header =
    \<lparr>req_method = GET, req_url = CART_ENDPOINT cfg @ ''?user_id=eq.'' @ user_id,
     req_headers = store_headers cfg auth_header [],
     req_json = None, req_timeout = None\<rparr>"

text \<open>The loop under \<^verbatim>\<open># Validate user isolation\<close>: it raises at the first foreign row.\<close>

fun validate_user_isolation :: "string \<Rightarrow> json list \<Rightarrow> exn + unit" where
  "validate_user_isolation user_id [] = Inr ()"
| "validate_user_isolation user_id (entry # entries) =
     and_then (py_getitem entry ''user_id'') (\<lambda>owner.
     if owner \<noteq> JStr user_id
     then Inl (HTTPException 500 ''Data integrity error: cart contains items from other users'')
     else validate_user_isolation user_id entries)"

text \<open>\<^verbatim>\<open>[entry["property_id"] for entry in rows]\<close>\<close>

fun property_ids_of :: "json list \<Rightarrow> exn + json list" where
  "property_ids_of [] = Inr []"
| "property_ids_of (entry # entries) =
     and_then (py_getitem entry ''property_id'') (\<lambda>property_id.
     and_then (property_ids_of entries) (\<lambda>rest. Inr (property_id # rest)))"

definition list_cart :: "config \<Rightarrow> client \<Rightarrow> string \<Rightarrow> string option \<Rightarrow> exn + json" where
  "list_cart cfg send user_id auth_header =
    and_then (send (list_cart_request cfg user_id auth_header)) (\<lambda>resp.
      if resp_status resp \<noteq> 200 then Inl (HTTPException (resp_status resp) (resp_text resp))
      else
        and_then (response_json resp) (\<lambda>cart_rows.
        and_then (py_iter cart_rows) (\<lambda>entries.
        and_then (validate_user_isolation user_id entries) (\<lambda>_.
        and_then (property_ids_of entries) (\<lambda>property_ids.
        Inr (JObj [(''cart'', JList property_ids), (''user_id'', JStr user_id),
                   (''count'', JInt (int (length property_ids)))]))))))"

subsection \<open>\<^verbatim>\<open>wishlist.py\<close>\<close>

definition WISHLIST_ENDPOINT :: "config \<Rightarrow> string" where
  "WISHLIST_ENDPOINT cfg = fmt_env (SUPABASE_URL cfg) @ ''/rest/v1/wishlist''"

definition add_to_wishlist_request ::
  "config \<Rightarrow> string \<Rightarrow> string \<Rightarrow> string option \<Rightarrow> request" where
  "add_to_wishlist_request cfg property_id user_id auth_header =
    \<lparr>req_method = POST, req_url = WISHLIST_ENDPOINT cfg,
     req_headers = store_headers cfg auth_header add_headers,
     req_json = Some (add_payload user_id property_id), req_timeout = None\<rparr>"

definition add_to_wishlist ::
  "config \<Rightarrow> client \<Rightarrow> string \<Rightarrow> string \<Rightarrow> string option \<Rightarrow> exn + json" where
  "add_to_wishlist cfg send property_id user_id auth_header =
    and_then (send (add_to_wishlist_request cfg property_id user_id auth_header)) (\<lambda>resp.
      if \<not> (resp_status resp = 201 \<or> resp_status resp = 200)
      then Inl (HTTPException (resp_status resp) (resp_text resp))
      else Inr (JObj [(''ok'', JBool True)]))"

definition remove_from_wishlist_request ::
  "config \<Rightarrow> string \<Rightarrow> string \<Rightarrow> string option \<Rightarrow> request" where
  "remove_from_wishlist_request cfg property_id user_id auth_header =
    \<lparr>req_method = DELETE,
     req_url = WISHLIST_ENDPOINT cfg @ ''?user_id=eq.'' @ user_id
                 @ ''&property_id=eq.'' @ property_id,
     req_headers = store_headers cfg auth_header [],
     req_json = None, req_timeout = None\<rparr>"

definition remove_from_wishlist ::
  "config \<Rightarrow> client \<Rightarrow> string \<Rightarrow> string \<Rightarrow> string option \<Rightarrow> exn + json" where
  "remove_from_wishlist cfg send property_id user_id auth_header =
    and_then (send (remove_from_wishlist_request cfg property_id user_id auth_header)) (\<lambda>resp.
      if \<not> (resp_status resp = 204 \<or> resp_status resp = 200)
      then Inl (HTTPException (resp_status resp) (resp_text resp))
      else Inr (JObj [(''ok'', JBool True)]))"

definition list_wishlist_request :: "config \<Rightarrow> string \<Rightarrow> string option \<Rightarrow> request" where
  "list_wishlist_request cfg user_id auth_header =
    \<lparr>req_method = GET, req_url = WISHLIST_ENDPOINT cfg @ ''?user_id=eq.'' @ user_id,
     req_headers = store_headers cfg auth_header [],
     req_json = None, req_timeout = None\<rparr>"

definition list_wishlist :: "config \<Rightarrow> client \<Rightarrow> string \<Rightarrow> string option \<Rightarrow> exn + json" where
  "list_wishlist cfg send user_id auth_header =
    and_then (send (list_wishlist_request cfg user_id auth_header)) (\<lambda>resp.
      if resp_status resp \<noteq> 200 then Inl (HTTPException (resp_status resp) (resp_text resp))
      else
        and_then (response_json resp) (\<lambda>wishlist.
        and_then (py_iter wishlist) (\<lambda>entries.
        and_then (property_ids_of entries) (\<lambda>property_ids.
        Inr (JObj [(''wishlist'', JList property_ids), (''user_id'', JStr user_id),
                   (''count'', JInt (int (length property_ids)))])))))"

text \<open>Rows as a faulty row store could answer for user \<^verbatim>\<open>A\<close>: the third one is of user \<^verbatim>\<open>B\<close>.\<close>

definition store_row :: "string \<Rightarrow> string \<Rightarrow> json" where
  "store_row user_id property_id =
     JObj [(''user_id'', JStr user_id), (''property_id'', JStr property_id)]"

definition foreign_rows :: json where
  "foreign_rows = JList [store_row ''A'' ''p1'', store_row ''A'' ''p2'', store_row ''B'' ''p3'']"

section \<open>The semaphore\<close>

text \<open>
  The scheduling of the units that reach \<^verbatim>\<open>async with semaphore\<close>. A unit waits for a
  permit, holds one while its media fetch is in flight, gives it back on leaving the
  \<^verbatim>\<open>async with\<close> block, runs \<^verbatim>\<open>transform_property\<close> and is done. The semaphore is one
  counter for the whole process, created with \<open>CONCURRENCY_LIMIT\<close> permits; a unit
  enters the block only when the counter is positive.
\<close>

datatype phase = Waiting | Fetching | Transforming | Done

record sched =
  permits :: nat
  phases :: "phase list"

definition initial :: "nat \<Rightarrow> sched" where
  "initial n = \<lparr>permits = CONCURRENCY_LIMIT, phases = replicate n Waiting\<rparr>"

inductive step :: "sched \<Rightarrow> sched \<Rightarrow> bool" where
  acquire: "i < length (phases s) \<Longrightarrow> phases s ! i = Waiting \<Longrightarrow> 0 < permits s \<Longrightarrow>
            step s \<lparr>permits = permits s - 1, phases = (phases s)[i := Fetching]\<rparr>"
| release: "i < length (phases s) \<Longrightarrow> phases s ! i = Fetching \<Longrightarrow>
            step s \<lparr>permits = permits s + 1, phases = (phases s)[i := Transforming]\<rparr>"
| finish: "i < length (phases s) \<Longrightarrow> phases s ! i = Transforming \<Longrightarrow>
            step s \<lparr>permits = permits s, phases = (phases s)[i := Done]\<rparr>"

inductive reachable :: "nat \<Rightarrow> sched \<Rightarrow> bool" where
  start: "reachable n (initial n)"
| after: "reachable n s \<Longrightarrow> step s s' \<Longrightarrow> reachable n s'"

definition in_flight :: "sched \<Rightarrow> nat" where
  \<comment> \<open>the number of media fetches in flight\<close>
  "in_flight s = length (filter (\<lambda>p. p = Fetching) (phases s))"

text \<open>
  A state of six units: four media fetches in flight, one unit done, one waiting.
\<close>

definition busy :: sched where
  "busy = \<lparr>permits = 0, phases = [Fetching, Fetching, Done, Fetching, Fetching, Waiting]\<rparr>"

section \<open>Properties of the filter builder\<close>

lemma join_snoc: "xs \<noteq> [] \<Longrightarrow> join sep (xs @ [x]) = join sep xs @ sep @ x"
  by (induction sep xs rule: join.induct) auto

lemma base_filters_nonempty: "base_filters \<noteq> []"
  by (simp add: base_filters_def)

lemma build_filter_str_ordered:
  "build_filter_str repr city p1 p2 b1 b2 t1 t2 pt =
     join '' and '' (base_filters @ spec_optional_clauses repr city p1 p2 b1 b2 t1 t2)"
  by (simp add: build_filter_str_def spec_optional_clauses_def Let_def split: option.splits)

text \<open>
  C6. With every optional criterion absent the filter is the three base predicates joined
  by \<^verbatim>\<open> and \<close>. From there, one criterion alone (a city that is not the empty string, or
  any one bound) appends exactly its own clause. In general the filter is the base
  predicates followed by the clauses of the criteria present, in the order city, price
  bounds, bed bounds, bath bounds.
\<close>

theorem filter_builder_clauses:
  "build_filter_str repr None None None None None None None pt = join '' and '' base_filters
   \<and> (c \<noteq> [] \<longrightarrow> build_filter_str repr (Some c) None None None None None None pt =
         join '' and '' base_filters @ '' and '' @ ''contains(City, '' @ sq @ c @ sq @ '')'')
   \<and> build_filter_str repr None (Some p) None None None None None pt =
         join '' and '' base_filters @ '' and '' @ ''ListPrice ge '' @ py_format repr (JFloat p)
   \<and> build_filter_str repr None None (Some p) None None None None pt =
         join '' and '' base_filters @ '' and '' @ ''ListPrice le '' @ py_format repr (JFloat p)
   \<and> build_filter_str repr None None None (Some n) None None None pt =
         join '' and '' base_filters @ '' and '' @ ''BedroomsTotal ge '' @ str_int n
   \<and> build_filter_str repr None None None None (Some n) None None pt =
         join '' and '' base_filters @ '' and '' @ ''BedroomsTotal le '' @ str_int n
   \<and> build_filter_str repr None None None None None (Some n) None pt =
         join '' and '' base_filters @ '' and '' @ ''BathroomsTotalInteger ge '' @ str_int n
   \<and> build_filter_str repr None None None None None None (Some n) pt =
         join '' and '' base_filters @ '' and '' @ ''BathroomsTotalInteger le '' @ str_int n
   \<and> build_filter_str repr city min_price max_price min_beds max_beds min_baths max_baths pt =
         join '' and ''
           (base_filters @ spec_optional_clauses repr city min_price max_price min_beds max_beds
              min_baths max_baths)"
  using base_filters_nonempty
  by (simp add: build_filter_str_ordered spec_optional_clauses_def join_snoc)

text \<open>
  The theorem at the city \<^verbatim>\<open>Toronto\<close>, the price 1000.0 and the counts 2 and 3.
\<close>

theorem filter_builder_clauses_witness:
  "''Toronto'' \<noteq> []
   \<and> build_filter_str repr_whole (Some ''Toronto'') None None None None None None None =
       join '' and '' base_filters @ '' and contains(City, 'Toronto'' @ sq @ '')''
   \<and> build_filter_str repr_whole None None None (Some 2) None None None None =
       join '' and '' base_filters @ '' and BedroomsTotal ge 2''
   \<and> build_filter_str repr_whole (Some ''Toronto'') (Some (Finite 1000)) None None (Some 3) None None None =
       join '' and '' base_filters
         @ '' and contains(City, 'Toronto'' @ sq @ '') and ListPrice ge 1000.0 and BedroomsTotal le 3''"
  using filter_builder_clauses [of repr_whole None "''Toronto''" "Finite 1000" 2
          "Some ''Toronto''" "Some (Finite 1000)" None None "Some 3" None None]
  by (simp add: spec_optional_clauses_def sq_def str_int_def str_nat.simps digit_char_def base_filters_def)

text \<open>
  A city that is present but empty appends no clause: the filter is the one of the absent
  city, the three base predicates alone.
\<close>

theorem empty_city_counterexample:
  "build_filter_str repr_whole (Some []) None None None None None None None =
     build_filter_str repr_whole None None None None None None None None
   \<and> build_filter_str repr_whole (Some []) None None None None None None None =
     join '' and '' base_filters"
  by (simp add: build_filter_str_def)

text \<open>
  C10. Whatever the other criteria are, the empty string as city gives the same filter as
  no city.
\<close>

theorem empty_city_is_absent_city:
  "build_filter_str repr (Some []) min_price max_price min_beds max_beds min_baths max_baths pt =
   build_filter_str repr None min_price max_price min_beds max_beds min_baths max_baths pt"
  by (simp add: build_filter_str_def)

section \<open>Properties of the property transformer\<close>

lemma str_items_texts:
  "\<forall>v \<in> set vs. is_text v \<Longrightarrow>
   str_items (filter truthy vs) = Inr (filter (\<lambda>s. s \<noteq> []) (map text_of vs))"
proof (induction vs)
  case Nil
  then show ?case by simp
next
  case (Cons v vs)
  then show ?case by (cases v) (simp_all add: and_then_def)
qed

lemma text_of_country:
  "is_text v \<Longrightarrow> text_of (py_or v (JStr ''CA'')) = (if text_of v = [] then ''CA'' else text_of v)"
  by (cases v) (simp_all add: py_or_def)

lemma is_text_country: "is_text v \<Longrightarrow> is_text (py_or v (JStr ''CA''))"
  by (cases v) (simp_all add: py_or_def)

lemma address_str_textual:
  assumes "textual d ''PropertyAddress''" "textual d ''City''" "textual d ''StateOrProvince''"
    "textual d ''PostalCode''" "textual d ''Country''"
  shows "address_str d =
    Inr (spec_compose_address (field_text d ''PropertyAddress'') (field_text d ''City'')
           (field_text d ''StateOrProvince'') (field_text d ''PostalCode'')
           (field_text d ''Country''))"
proof -
  have "\<forall>v \<in> set (address_parts d). is_text v"
    using assms by (simp add: address_parts_def textual_def is_text_country)
  then have "str_items (filter truthy (address_parts d)) =
      Inr (filter (\<lambda>s. s \<noteq> []) (map text_of (address_parts d)))"
    by (rule str_items_texts)
  moreover have "map text_of (address_parts d) =
      [field_text d ''PropertyAddress'', field_text d ''City'', field_text d ''StateOrProvince'',
       field_text d ''PostalCode'',
       if field_text d ''Country'' = [] then ''CA'' else field_text d ''Country'']"
    using assms(5) by (simp add: address_parts_def field_text_def textual_def text_of_country)
  ultimately show ?thesis
    by (simp add: address_str_def py_join_def and_then_def spec_compose_address_def)
qed

lemma transform_property_address:
  "transform_property d media = Inr v \<Longrightarrow> address_str d = Inr a \<Longrightarrow>
   dict_get v ''address'' JNull = JStr a"
  by (auto simp: transform_property_def and_then_def dict_get_def Let_def split: sum.splits)

lemma example_listing_address:
  "address_str example_listing = Inr ''123 Main, ON, M1M1M1, CA''"
  by (simp add: address_str_def address_parts_def py_join_def and_then_def example_listing_def
      dict_get_def py_or_def)

text \<open>
  C7. When the five address components of a listing are absent, \<^verbatim>\<open>None\<close> or strings, the
  address is the non-empty ones of street, city, region, postal code and country joined
  by \<^verbatim>\<open>, \<close>, with \<^verbatim>\<open>CA\<close> for an empty country, and that is the \<^verbatim>\<open>address\<close> entry of
  what the transformer returns. For the listing with the components \<^verbatim>\<open>123 Main\<close>, empty,
  \<^verbatim>\<open>ON\<close>, \<^verbatim>\<open>M1M1M1\<close>, empty this is \<^verbatim>\<open>123 Main, ON, M1M1M1, CA\<close>.
\<close>

theorem address_composition:
  assumes "textual d ''PropertyAddress''" "textual d ''City''" "textual d ''StateOrProvince''"
    "textual d ''PostalCode''" "textual d ''Country''"
  shows "address_str d =
      Inr (spec_compose_address (field_text d ''PropertyAddress'') (field_text d ''City'')
             (field_text d ''StateOrProvince'') (field_text d ''PostalCode'')
             (field_text d ''Country''))
    \<and> (\<forall>v. transform_property d media = Inr v \<longrightarrow>
          dict_get v ''address'' JNull =
            JStr (spec_compose_address (field_text d ''PropertyAddress'') (field_text d ''City'')
                    (field_text d ''StateOrProvince'') (field_text d ''PostalCode'')
                    (field_text d ''Country'')))
    \<and> address_str example_listing = Inr ''123 Main, ON, M1M1M1, CA''"
  using address_str_textual [OF assms] transform_property_address [of d media]
    example_listing_address
  by simp

lemma example_listing_textual:
  "textual example_listing ''PropertyAddress''" "textual example_listing ''City''"
  "textual example_listing ''StateOrProvince''" "textual example_listing ''PostalCode''"
  "textual example_listing ''Country''"
  by (simp_all add: textual_def example_listing_def dict_get_def)

lemma example_listing_texts:
  "field_text example_listing ''PropertyAddress'' = ''123 Main''"
  "field_text example_listing ''City'' = []"
  "field_text example_listing ''StateOrProvince'' = ''ON''"
  "field_text example_listing ''PostalCode'' = ''M1M1M1''"
  "field_text example_listing ''Country'' = []"
  by (simp_all add: field_text_def example_listing_def dict_get_def)

text \<open>
  The theorem at the listing with exactly these five components.
\<close>

theorem address_composition_witness:
  "textual example_listing ''PropertyAddress'' \<and> textual example_listing ''City''
   \<and> textual example_listing ''StateOrProvince'' \<and> textual example_listing ''PostalCode''
   \<and> textual example_listing ''Country''
   \<and> address_str example_listing = Inr ''123 Main, ON, M1M1M1, CA''
   \<and> (\<exists>v. transform_property example_listing None = Inr v
          \<and> dict_get v ''address'' JNull = JStr ''123 Main, ON, M1M1M1, CA'')"
proof -
  have t: "\<exists>v. transform_property example_listing None = Inr v"
    by (simp add: transform_property_def address_str_def address_parts_def py_join_def
        and_then_def example_listing_def dict_get_def py_or_def)
  show ?thesis
    using address_composition [OF example_listing_textual, of None] t
    by (auto simp: example_listing_textual example_listing_texts)
qed

lemma py_int_numeric: "numeric v \<Longrightarrow> \<exists>i. py_int v = Inr i"
  by (induction v rule: numeric.induct) (auto split: option.splits)

lemma py_int_count_ok:
  "count_ok d k \<Longrightarrow> \<exists>i. py_int (py_or (dict_get d k (JInt 0)) (JInt 0)) = Inr i"
  by (auto simp: count_ok_def py_or_def Let_def py_int_numeric split: if_splits)

lemma py_int_falsy:
  "\<not> truthy (dict_get d k (JInt 0)) \<Longrightarrow> py_int (py_or (dict_get d k (JInt 0)) (JInt 0)) = Inr 0"
  by (simp add: py_or_def)

lemma transform_property_total:
  assumes "transformable d"
  shows "\<exists>v. transform_property d media = Inr v"
proof -
  obtain a where a: "address_str d = Inr a"
    using assms address_str_textual [of d] by (auto simp: transformable_def)
  obtain b1 where b1: "py_int (py_or (dict_get d ''BedroomsTotal'' (JInt 0)) (JInt 0)) = Inr b1"
    using assms py_int_count_ok [of d "''BedroomsTotal''"] by (auto simp: transformable_def)
  obtain b2 where b2:
    "py_int (py_or (dict_get d ''BathroomsTotalInteger'' (JInt 0)) (JInt 0)) = Inr b2"
    using assms py_int_count_ok [of d "''BathroomsTotalInteger''"]
    by (auto simp: transformable_def)
  obtain b3 where b3: "py_int (py_or (dict_get d ''ParkingTotal'' (JInt 0)) (JInt 0)) = Inr b3"
    using assms py_int_count_ok [of d "''ParkingTotal''"] by (auto simp: transformable_def)
  show ?thesis
    by (simp add: transform_property_def a b1 b2 b3 and_then_def)
qed

lemma transform_property_entries:
  assumes "transform_property d media = Inr v"
  shows "dict_get v ''id'' JNull = dict_get d ''ListingKey'' (JStr [])"
    and "dict_get v ''images'' JNull = JList (case media of None \<Rightarrow> [] | Some urls \<Rightarrow> urls)"
    and "py_int (py_or (dict_get d ''BedroomsTotal'' (JInt 0)) (JInt 0)) =
           Inr i \<Longrightarrow> dict_get v ''beds'' JNull = JInt i"
    and "py_int (py_or (dict_get d ''BathroomsTotalInteger'' (JInt 0)) (JInt 0)) =
           Inr i \<Longrightarrow> dict_get v ''baths'' JNull = JInt i"
    and "py_int (py_or (dict_get d ''ParkingTotal'' (JInt 0)) (JInt 0)) =
           Inr i \<Longrightarrow> dict_get v ''parking'' JNull = JInt i"
  using assms
  by (auto simp: transform_property_def and_then_def dict_get_def Let_def split: sum.splits)

lemma py_int_not_numeric: "\<not> numeric v \<Longrightarrow> \<exists>e. py_int v = Inl e"
  by (induction v rule: numeric.induct) (auto split: option.splits)

lemma py_int_rejected:
  "\<not> count_ok d k \<Longrightarrow> \<exists>e. py_int (py_or (dict_get d k (JInt 0)) (JInt 0)) = Inl e"
  by (auto simp: count_ok_def py_or_def Let_def py_int_not_numeric split: if_splits)

lemma transform_property_rejects:
  assumes "\<not> count_ok d ''BedroomsTotal'' \<or> \<not> count_ok d ''BathroomsTotalInteger''
           \<or> \<not> count_ok d ''ParkingTotal''"
  shows "\<exists>e. transform_property d media = Inl e"
proof (cases "transform_property d media")
  case (Inl e)
  then show ?thesis by blast
next
  case (Inr v)
  then obtain i1 i2 i3 where
    "py_int (py_or (dict_get d ''BedroomsTotal'' (JInt 0)) (JInt 0)) = Inr i1"
    "py_int (py_or (dict_get d ''BathroomsTotalInteger'' (JInt 0)) (JInt 0)) = Inr i2"
    "py_int (py_or (dict_get d ''ParkingTotal'' (JInt 0)) (JInt 0)) = Inr i3"
    by (auto simp: transform_property_def and_then_def Let_def split: sum.splits)
  then show ?thesis
    using assms py_int_rejected [of d "''BedroomsTotal''"]
      py_int_rejected [of d "''BathroomsTotalInteger''"] py_int_rejected [of d "''ParkingTotal''"]
    by auto
qed

text \<open>
  C2. On a listing of the expected types the transformer returns a view and does not
  raise; the view carries the images it was given (none when there are none), and
  \<^verbatim>\<open>beds\<close>, \<^verbatim>\<open>baths\<close> and \<^verbatim>\<open>parking\<close> are zero whenever the source value is absent or
  falsy. On a listing one of whose three counts is truthy and not accepted by \<^verbatim>\<open>int\<close>,
  the transformer raises, whatever the other fields and the images are.
\<close>

theorem transform_property_domain:
  "(transformable d \<longrightarrow>
      (\<exists>v. transform_property d media = Inr v
         \<and> dict_get v ''images'' JNull = JList (case media of None \<Rightarrow> [] | Some urls \<Rightarrow> urls)
         \<and> (\<not> truthy (dict_get d ''BedroomsTotal'' (JInt 0)) \<longrightarrow>
               dict_get v ''beds'' JNull = JInt 0)
         \<and> (\<not> truthy (dict_get d ''BathroomsTotalInteger'' (JInt 0)) \<longrightarrow>
               dict_get v ''baths'' JNull = JInt 0)
         \<and> (\<not> truthy (dict_get d ''ParkingTotal'' (JInt 0)) \<longrightarrow>
               dict_get v ''parking'' JNull = JInt 0)))
   \<and> (\<not> count_ok d ''BedroomsTotal'' \<or> \<not> count_ok d ''BathroomsTotalInteger''
        \<or> \<not> count_ok d ''ParkingTotal'' \<longrightarrow>
      (\<exists>e. transform_property d media = Inl e))"
proof (intro conjI impI)
  assume t: "transformable d"
  obtain v where v: "transform_property d media = Inr v"
    using transform_property_total [OF t] by blast
  show "\<exists>v. transform_property d media = Inr v
         \<and> dict_get v ''images'' JNull = JList (case media of None \<Rightarrow> [] | Some urls \<Rightarrow> urls)
         \<and> (\<not> truthy (dict_get d ''BedroomsTotal'' (JInt 0)) \<longrightarrow>
               dict_get v ''beds'' JNull = JInt 0)
         \<and> (\<not> truthy (dict_get d ''BathroomsTotalInteger'' (JInt 0)) \<longrightarrow>
               dict_get v ''baths'' JNull = JInt 0)
         \<and> (\<not> truthy (dict_get d ''ParkingTotal'' (JInt 0)) \<longrightarrow>
               dict_get v ''parking'' JNull = JInt 0)"
    using v transform_property_entries [OF v] by (auto simp: py_int_falsy)
next
  assume "\<not> count_ok d ''BedroomsTotal'' \<or> \<not> count_ok d ''BathroomsTotalInteger''
           \<or> \<not> count_ok d ''ParkingTotal''"
  then show "\<exists>e. transform_property d media = Inl e"
    by (rule transform_property_rejects)
qed

lemmas int_defs =
  int_of_str_def strip_def py_isspace_def parse_digits_def is_digit_def digit_val_def
  INT_MAX_STR_DIGITS_def

lemma typed_listing_run:
  "transform_property typed_listing (Some [JStr ''u'']) =
   Inr [(''id'', JStr ''k''), (''images'', JList [JStr ''u'']), (''price'', JStr []),
      (''address'', JStr ''1 Main, CA''), (''added'', JStr []), (''beds'', JInt 3),
      (''baths'', JInt 2), (''parking'', JInt 0), (''sqft'', JStr []),
      (''location'', JStr []), (''areaCode'', JStr []),
      (''propertyType'', JStr []), (''availableDate'', JStr []),
      (''leaseTerms'', JStr []), (''description'', JStr [])]"
  by (simp add: transform_property_def address_str_def address_parts_def py_join_def
      and_then_def dict_get_def py_or_def typed_listing_def int_defs floor_eq_iff)

lemma typed_listing_transformable: "transformable typed_listing"
  by (simp add: transformable_def textual_def count_ok_def dict_get_def typed_listing_def
      int_defs)

lemma word_listing_rejected: "\<not> count_ok word_listing ''BedroomsTotal''"
  by (simp add: count_ok_def dict_get_def word_listing_def int_defs)

lemma separator_listing_rejected: "\<not> count_ok separator_listing ''BedroomsTotal''"
  by (simp add: count_ok_def dict_get_def separator_listing_def int_defs)

lemma empty_listing_transformable: "transformable []"
  by (simp add: transformable_def textual_def count_ok_def dict_get_def)

text \<open>
  The theorem at the entirely empty mapping, at a listing of the expected types with a
  numeral, a float and \<^verbatim>\<open>None\<close> as counts, and at the two listings whose bedroom count
  \<^verbatim>\<open>int\<close> refuses.
\<close>

theorem transform_property_domain_witness:
  "transformable []
   \<and> \<not> truthy (dict_get [] ''BedroomsTotal'' (JInt 0))
   \<and> \<not> truthy (dict_get [] ''BathroomsTotalInteger'' (JInt 0))
   \<and> \<not> truthy (dict_get [] ''ParkingTotal'' (JInt 0))
   \<and> (\<exists>v. transform_property [] None = Inr v
         \<and> dict_get v ''images'' JNull = JList []
         \<and> dict_get v ''beds'' JNull = JInt 0
         \<and> dict_get v ''baths'' JNull = JInt 0
         \<and> dict_get v ''parking'' JNull = JInt 0)
   \<and> transformable typed_listing
   \<and> \<not> truthy (dict_get typed_listing ''ParkingTotal'' (JInt 0))
   \<and> (\<exists>v. transform_property typed_listing (Some [JStr ''u'']) = Inr v
         \<and> dict_get v ''images'' JNull = JList [JStr ''u'']
         \<and> dict_get v ''beds'' JNull = JInt 3
         \<and> dict_get v ''baths'' JNull = JInt 2
         \<and> dict_get v ''parking'' JNull = JInt 0)
   \<and> \<not> count_ok word_listing ''BedroomsTotal''
   \<and> transform_property word_listing None = Inl ValueError
   \<and> \<not> count_ok separator_listing ''BedroomsTotal''
   \<and> transform_property separator_listing None = Inl ValueError"
proof -
  have w: "transform_property word_listing None = Inl ValueError"
    by (simp add: transform_property_def address_str_def address_parts_def py_join_def
        and_then_def dict_get_def py_or_def word_listing_def int_defs)
  have s: "transform_property separator_listing None = Inl ValueError"
    by (simp add: transform_property_def address_str_def address_parts_def py_join_def
        and_then_def dict_get_def py_or_def separator_listing_def int_defs)
  have p: "\<not> truthy (dict_get typed_listing ''ParkingTotal'' (JInt 0))"
    by (simp add: dict_get_def typed_listing_def)
  show ?thesis
    using transform_property_domain [of "[]" None]
      transform_property_domain [of typed_listing "Some [JStr ''u'']"]
      transform_property_domain [of word_listing None]
      transform_property_domain [of separator_listing None]
      empty_listing_transformable typed_listing_transformable word_listing_rejected
      separator_listing_rejected w s p
    by (auto simp: typed_listing_run dict_get_def)
qed

text \<open>
  A bedroom count that is a str and not a numeral does not become zero: \<^verbatim>\<open>int\<close> raises
  \<^verbatim>\<open>ValueError\<close> and so does the transformer.
\<close>

theorem transform_property_counterexample:
  "transform_property word_listing None = Inl ValueError"
  by (simp add: transform_property_def address_str_def address_parts_def py_join_def
      and_then_def dict_get_def py_or_def word_listing_def int_defs)

section \<open>Properties of the listing endpoint\<close>

lemma get_properties_not_configured:
  "\<not> MLS_CONFIGURED cfg \<Longrightarrow>
   get_properties cfg repr exc_str send media_send limit city min_price max_price min_beds
     max_beds min_baths max_baths property_type =
   Inl (HTTPException 503 ''MLS API not configured.'')"
  by (simp add: get_properties_def get_properties_body_def fetch_mls_data_def and_then_def)

lemma get_properties_transport_error:
  "MLS_CONFIGURED cfg \<Longrightarrow>
   send (mls_request cfg (properties_url cfg repr limit city min_price max_price min_beds
     max_beds min_baths max_baths property_type)) = Inl TransportError \<Longrightarrow>
   get_properties cfg repr exc_str send media_send limit city min_price max_price min_beds
     max_beds min_baths max_baths property_type =
   Inl (HTTPException 500 (''Error fetching properties: '' @ exc_str TransportError))"
  by (simp add: get_properties_def get_properties_body_def fetch_mls_data_def and_then_def)

lemma get_properties_status_error:
  "MLS_CONFIGURED cfg \<Longrightarrow>
   send (mls_request cfg (properties_url cfg repr limit city min_price max_price min_beds
     max_beds min_baths max_baths property_type)) = Inr r \<Longrightarrow>
   resp_status r < 200 \<or> 300 \<le> resp_status r \<Longrightarrow>
   get_properties cfg repr exc_str send media_send limit city min_price max_price min_beds
     max_beds min_baths max_baths property_type =
   Inl (HTTPException 500
          (''Error fetching properties: '' @ exc_str (HTTPStatusError (resp_status r))))"
  by (auto simp: get_properties_def get_properties_body_def fetch_mls_data_def and_then_def
      raise_for_status_def)

text \<open>
  C4. When the external listing API is configured and the listing call fails in transport
  or answers with a status outside 200..299, \<^verbatim>\<open>GET /properties\<close> fails with status 500 and
  the detail \<^verbatim>\<open>Error fetching properties: \<close> followed by the message of the error. Only the
  failure of a listing API that is not configured keeps its own status, 503.
\<close>

theorem upstream_failure_surfaces_as_500:
  "(MLS_CONFIGURED cfg \<and>
    send (mls_request cfg (properties_url cfg repr limit city min_price max_price min_beds
      max_beds min_baths max_baths property_type)) = Inl TransportError \<longrightarrow>
    get_properties cfg repr exc_str send media_send limit city min_price max_price min_beds
      max_beds min_baths max_baths property_type =
    Inl (HTTPException 500 (''Error fetching properties: '' @ exc_str TransportError)))
   \<and> (MLS_CONFIGURED cfg \<and>
    send (mls_request cfg (properties_url cfg repr limit city min_price max_price min_beds
      max_beds min_baths max_baths property_type)) = Inr r \<and>
    (resp_status r < 200 \<or> 300 \<le> resp_status r) \<longrightarrow>
    get_properties cfg repr exc_str send media_send limit city min_price max_price min_beds
      max_beds min_baths max_baths property_type =
    Inl (HTTPException 500
           (''Error fetching properties: '' @ exc_str (HTTPStatusError (resp_status r)))))
   \<and> (\<not> MLS_CONFIGURED cfg \<longrightarrow>
    get_properties cfg repr exc_str send media_send limit city min_price max_price min_beds
      max_beds min_baths max_baths property_type =
    Inl (HTTPException 503 ''MLS API not configured.''))"
  by (intro conjI impI; (elim conjE)?)
    (simp_all add: get_properties_not_configured get_properties_transport_error
      get_properties_status_error)

lemma env_on_configured: "MLS_CONFIGURED env_on"
  by (simp add: MLS_CONFIGURED_def env_truthy_def env_on_def)

lemma env_off_not_configured: "\<not> MLS_CONFIGURED env_off"
  by (simp add: MLS_CONFIGURED_def env_truthy_def env_off_def)

text \<open>
  The theorem at a listing API that is down, at one that answers 404, and at one that is
  not configured.
\<close>

theorem upstream_failure_surfaces_as_500_witness:
  "MLS_CONFIGURED env_on
   \<and> get_properties env_on repr_whole exc_name down all_down 24 None None None None None None
       None None = Inl (HTTPException 500 ''Error fetching properties: TransportError'')
   \<and> get_properties env_on repr_whole exc_name (answers 404 ''Not Found'' None) all_down 24 None
       None None None None None None None =
       Inl (HTTPException 500 ''Error fetching properties: HTTPStatusError'')
   \<and> \<not> MLS_CONFIGURED env_off
   \<and> get_properties env_off repr_whole exc_name down all_down 24 None None None None None None
       None None = Inl (HTTPException 503 ''MLS API not configured.'')"
  using
    upstream_failure_surfaces_as_500 [of env_on down repr_whole 24 None None None None None None
      None None exc_name all_down]
    upstream_failure_surfaces_as_500 [of env_on "answers 404 ''Not Found'' None" repr_whole 24
      None None None None None None None None exc_name all_down
      "\<lparr>resp_status = 404, resp_text = ''Not Found'', resp_json = None\<rparr>"]
    upstream_failure_surfaces_as_500 [of env_off down repr_whole 24 None None None None None None
      None None exc_name all_down]
  by (simp add: env_on_configured env_off_not_configured down_def answers_def)

text \<open>
  The upstream answers 404; the caller of \<^verbatim>\<open>GET /properties\<close> gets 500.
\<close>

theorem upstream_status_counterexample:
  "raised_status
     (get_properties env_on repr_whole exc_name (answers 404 ''Not Found'' None) all_down 24 None
        None None None None None None None) = Some 500
   \<and> raised_status
     (get_properties env_on repr_whole exc_name (answers 404 ''Not Found'' None) all_down 24 None
        None None None None None None None) \<noteq> Some 404"
  using get_properties_status_error [of env_on "answers 404 ''Not Found'' None" repr_whole 24
      None None None None None None None None
      "\<lparr>resp_status = 404, resp_text = ''Not Found'', resp_json = None\<rparr>" exc_name all_down]
  by (simp add: env_on_configured answers_def raised_status_def)

section \<open>Properties of the fan-out\<close>

lemma fetch_largest_media_failed:
  "media_failed cfg repr send k \<Longrightarrow> fetch_largest_media cfg repr send k = []"
  by (auto simp: media_failed_def fetch_largest_media_def and_then_def raise_for_status_def
      split: sum.splits)

lemma dict_get_truthy_default:
  "truthy (dict_get d k JNull) \<Longrightarrow> dict_get d k (JStr []) = dict_get d k JNull"
  by (auto simp: dict_get_def split: option.splits)

lemma unit_keyless:
  "enrichable p \<Longrightarrow> \<not> has_key p \<Longrightarrow> get_transformed_property cfg repr send p = Inr None"
  by (cases p) (simp_all add: enrichable_def has_key_def get_transformed_property_def)

lemma unit_keyed:
  assumes "enrichable p" and "has_key p"
  shows "\<exists>v. get_transformed_property cfg repr (media_send i) p = Inr (Some v)
             \<and> enriched_from cfg repr media_send (i, p) v"
proof -
  obtain d where p: "p = JObj d"
    using assms(2) by (cases p) (simp_all add: has_key_def)
  have key: "truthy (dict_get d ''ListingKey'' JNull)"
    using assms(2) p by (simp add: has_key_def)
  then have "transformable d"
    using assms(1) p by (simp add: enrichable_def)
  then obtain v where v:
    "transform_property d
       (Some (fetch_largest_media cfg repr (media_send i) (dict_get d ''ListingKey'' JNull))) =
     Inr v"
    using transform_property_total by blast
  have "enriched_from cfg repr media_send (i, p) v"
    using transform_property_entries(1,2) [OF v] key p
    by (simp add: enriched_from_def key_of_def dict_get_truthy_default
        fetch_largest_media_failed)
  then show ?thesis
    using v key p by (simp add: get_transformed_property_def and_then_def)
qed

lemma gather_units:
  assumes "\<forall>p \<in> set props. enrichable p"
  shows "\<exists>results.
      gather (map (\<lambda>(i, prop). get_transformed_property cfg repr (media_send i) prop)
                (enumerate n props)) = Inr results
    \<and> list_all2 (enriched_from cfg repr media_send)
        (filter (\<lambda>ip. has_key (snd ip)) (enumerate n props))
        (List.map_filter (\<lambda>result. result) results)"
  using assms
proof (induction props arbitrary: n)
  case Nil
  then show ?case by simp
next
  case (Cons p props)
  have "\<forall>p \<in> set props. enrichable p" using Cons.prems by simp
  from Cons.IH [OF this, of "Suc n"] obtain results where rest:
    "gather (map (\<lambda>(i, prop). get_transformed_property cfg repr (media_send i) prop)
               (enumerate (Suc n) props)) = Inr results"
    "list_all2 (enriched_from cfg repr media_send)
        (filter (\<lambda>ip. has_key (snd ip)) (enumerate (Suc n) props))
        (List.map_filter (\<lambda>result. result) results)"
    by blast
  have e: "enrichable p" using Cons.prems by simp
  show ?case
  proof (cases "has_key p")
    case True
    then obtain v where
      "get_transformed_property cfg repr (media_send n) p = Inr (Some v)"
      "enriched_from cfg repr media_send (n, p) v"
      using unit_keyed [OF e] by blast
    then show ?thesis
      using rest True by (simp add: and_then_def)
  next
    case False
    then have "get_transformed_property cfg repr (media_send n) p = Inr None"
      using unit_keyless [OF e] by simp
    then show ?thesis
      using rest False by (simp add: and_then_def)
  qed
qed

lemma length_filter_enumerate:
  "length (filter (\<lambda>ip. P (snd ip)) (enumerate n xs)) = length (filter P xs)"
  by (induction xs arbitrary: n) simp_all

lemma fan_out_on_enrichable:
  assumes "\<forall>p \<in> set props. enrichable p"
  shows "\<exists>out. fan_out cfg repr media_send props = Inr out
    \<and> list_all2 (enriched_from cfg repr media_send)
        (filter (\<lambda>ip. has_key (snd ip)) (enumerate 0 props)) out
    \<and> length out = length (filter has_key props)
    \<and> ((\<forall>p \<in> set props. has_key p) \<longrightarrow> length out = length props)"
proof -
  obtain results where r:
    "gather (map (\<lambda>(i, prop). get_transformed_property cfg repr (media_send i) prop)
               (enumerate 0 props)) = Inr results"
    "list_all2 (enriched_from cfg repr media_send)
        (filter (\<lambda>ip. has_key (snd ip)) (enumerate 0 props))
        (List.map_filter (\<lambda>result. result) results)"
    using gather_units [OF assms] by blast
  let ?out = "List.map_filter (\<lambda>result. result) results"
  have out: "fan_out cfg repr media_send props = Inr ?out"
    using r(1) by (simp add: fan_out_def and_then_def)
  have len: "length ?out = length (filter has_key props)"
    using list_all2_lengthD [OF r(2)] by (simp add: length_filter_enumerate)
  have "(\<forall>p \<in> set props. has_key p) \<longrightarrow> length ?out = length props"
    using len by simp
  then show ?thesis using out r(2) len by blast
qed

lemma py_int_errors: "py_int v = Inl e \<Longrightarrow> e \<in> {ValueError, TypeError, OverflowError}"
  by (induction v rule: py_int.induct) (auto split: option.splits)

lemma str_items_errors: "str_items vs = Inl e \<Longrightarrow> e = TypeError"
  by (induction vs rule: str_items.induct) (auto simp: and_then_def split: sum.splits)

lemma transform_property_errors:
  "transform_property d media = Inl e \<Longrightarrow> e \<in> {ValueError, TypeError, OverflowError}"
  by (auto simp: transform_property_def address_str_def py_join_def and_then_def Let_def
      split: sum.splits dest: py_int_errors str_items_errors)

lemma transform_property_raise_media:
  "transform_property d media = Inl e \<Longrightarrow> transform_property d media' = Inl e"
  by (auto simp: transform_property_def and_then_def Let_def split: sum.splits)

lemma unit_errors:
  "get_transformed_property cfg repr send p = Inl e \<Longrightarrow>
   e \<in> {AttributeError, ValueError, TypeError, OverflowError}"
  by (cases p)
    (auto simp: get_transformed_property_def and_then_def Let_def
      split: if_splits sum.splits dest: transform_property_errors)

lemma unit_raises:
  assumes "transformer_raises p"
  shows "\<exists>e. get_transformed_property cfg repr send p = Inl e"
proof -
  obtain d where p: "p = JObj d"
    using assms by (cases p) (simp_all add: transformer_raises_def)
  have key: "truthy (dict_get d ''ListingKey'' JNull)"
    using assms p by (simp add: transformer_raises_def)
  obtain e where "transform_property d None = Inl e"
    using assms p by (auto simp: transformer_raises_def split: sum.splits)
  then have "transform_property d
      (Some (fetch_largest_media cfg repr send (dict_get d ''ListingKey'' JNull))) = Inl e"
    by (rule transform_property_raise_media)
  then show ?thesis
    using key p by (simp add: get_transformed_property_def and_then_def)
qed

lemma gather_raises: "Inl e \<in> set rs \<Longrightarrow> \<exists>e'. gather rs = Inl e'"
proof (induction rs)
  case Nil
  then show ?case by simp
next
  case (Cons r rs)
  then show ?case by (cases r) (auto simp: and_then_def split: sum.splits)
qed

lemma gather_error_source: "gather rs = Inl e \<Longrightarrow> Inl e \<in> set rs"
proof (induction rs)
  case Nil
  then show ?case by simp
next
  case (Cons r rs)
  then show ?case by (cases r) (auto simp: and_then_def split: sum.splits)
qed

lemma unit_in_batch:
  "p \<in> set props \<Longrightarrow>
   \<exists>i. get_transformed_property cfg repr (media_send i) p
        \<in> set (map (\<lambda>(i, prop). get_transformed_property cfg repr (media_send i) prop)
                 (enumerate n props))"
proof (induction props arbitrary: n)
  case Nil
  then show ?case by simp
next
  case (Cons q props)
  show ?case
  proof (cases "p = q")
    case True
    then have "get_transformed_property cfg repr (media_send n) p
        \<in> set (map (\<lambda>(i, prop). get_transformed_property cfg repr (media_send i) prop)
                 (enumerate n (q # props)))"
      by simp
    then show ?thesis by blast
  next
    case False
    then have "p \<in> set props" using Cons.prems by simp
    from Cons.IH [OF this, of "Suc n"] obtain i where
      "get_transformed_property cfg repr (media_send i) p
        \<in> set (map (\<lambda>(i, prop). get_transformed_property cfg repr (media_send i) prop)
                 (enumerate (Suc n) props))"
      by blast
    then have "get_transformed_property cfg repr (media_send i) p
        \<in> set (map (\<lambda>(i, prop). get_transformed_property cfg repr (media_send i) prop)
                 (enumerate n (q # props)))"
      by simp
    then show ?thesis by blast
  qed
qed

lemma fan_out_raises:
  assumes "\<exists>p \<in> set props. transformer_raises p"
  shows "\<exists>e. fan_out cfg repr media_send props = Inl e
             \<and> e \<in> {AttributeError, ValueError, TypeError, OverflowError}"
proof -
  let ?units = "map (\<lambda>(i, prop). get_transformed_property cfg repr (media_send i) prop)
                  (enumerate 0 props)"
  obtain p where p: "p \<in> set props" "transformer_raises p"
    using assms by blast
  obtain i where i: "get_transformed_property cfg repr (media_send i) p \<in> set ?units"
    using unit_in_batch [OF p(1)] by blast
  obtain e where "get_transformed_property cfg repr (media_send i) p = Inl e"
    using unit_raises [OF p(2)] by blast
  then have "Inl e \<in> set ?units" using i by simp
  then obtain e' where e': "gather ?units = Inl e'"
    using gather_raises by blast
  then have "Inl e' \<in> set ?units"
    by (rule gather_error_source)
  then obtain j q where "get_transformed_property cfg repr (media_send j) q = Inl e'"
    by auto
  then have "e' \<in> {AttributeError, ValueError, TypeError, OverflowError}"
    by (rule unit_errors)
  then show ?thesis
    using e' by (simp add: fan_out_def and_then_def)
qed

lemma get_properties_batch_raises:
  assumes "fetch_mls_data cfg send
      (properties_url cfg repr limit city min_price max_price min_beds max_beds min_baths
         max_baths property_type) = Inr (JList props)"
    and "\<exists>p \<in> set props. transformer_raises p"
  shows "raised_status
      (get_properties cfg repr exc_str send media_send limit city min_price max_price
         min_beds max_beds min_baths max_baths property_type) = Some 500"
proof -
  obtain e where e: "fan_out cfg repr media_send props = Inl e"
    "e \<in> {AttributeError, ValueError, TypeError, OverflowError}"
    using fan_out_raises [OF assms(2)] by blast
  have "props \<noteq> []" using assms(2) by auto
  then have "get_properties_body cfg repr send media_send limit city min_price max_price
      min_beds max_beds min_baths max_baths property_type = Inl e"
    using assms(1) e(1) by (simp add: get_properties_body_def and_then_def)
  then show ?thesis
    using e(2) by (auto simp: get_properties_def raised_status_def)
qed

text \<open>
  C5. On a batch of enrichable listings the fan-out returns one entry for each listing
  that has a listing key and none for the others, in the order of the input: the entry of
  a listing carries its key as \<^verbatim>\<open>id\<close> and the images its own media fetch returned, the
  empty list when that fetch failed. So a batch in which every listing has a key gives as
  many entries as it has listings. On a batch with a listing on which the transformer
  raises, the fan-out returns no entry but raises, and \<^verbatim>\<open>GET /properties\<close>, having fetched
  that batch, fails with status 500.
\<close>

theorem fan_out_enrichment:
  "((\<forall>p \<in> set props. enrichable p) \<longrightarrow>
      (\<exists>out. fan_out cfg repr media_send props = Inr out
         \<and> list_all2 (enriched_from cfg repr media_send)
             (filter (\<lambda>ip. has_key (snd ip)) (enumerate 0 props)) out
         \<and> length out = length (filter has_key props)
         \<and> ((\<forall>p \<in> set props. has_key p) \<longrightarrow> length out = length props)))
   \<and> ((\<exists>p \<in> set props. transformer_raises p) \<longrightarrow>
      (\<exists>e. fan_out cfg repr media_send props = Inl e)
      \<and> (fetch_mls_data cfg send
            (properties_url cfg repr limit city min_price max_price min_beds max_beds min_baths
               max_baths property_type) = Inr (JList props) \<longrightarrow>
          raised_status
            (get_properties cfg repr exc_str send media_send limit city min_price max_price
               min_beds max_beds min_baths max_baths property_type) = Some 500))"
proof (intro conjI impI)
  assume "\<forall>p \<in> set props. enrichable p"
  then show "\<exists>out. fan_out cfg repr media_send props = Inr out
         \<and> list_all2 (enriched_from cfg repr media_send)
             (filter (\<lambda>ip. has_key (snd ip)) (enumerate 0 props)) out
         \<and> length out = length (filter has_key props)
         \<and> ((\<forall>p \<in> set props. has_key p) \<longrightarrow> length out = length props)"
    by (rule fan_out_on_enrichable)
next
  assume "\<exists>p \<in> set props. transformer_raises p"
  then show "\<exists>e. fan_out cfg repr media_send props = Inl e"
    using fan_out_raises by blast
next
  assume "\<exists>p \<in> set props. transformer_raises p"
    and "fetch_mls_data cfg send
          (properties_url cfg repr limit city min_price max_price min_beds max_beds min_baths
             max_baths property_type) = Inr (JList props)"
  then show "raised_status
          (get_properties cfg repr exc_str send media_send limit city min_price max_price
             min_beds max_beds min_baths max_baths property_type) = Some 500"
    using get_properties_batch_raises by blast
qed

lemmas run_defs =
  fan_out_def get_transformed_property_def fetch_largest_media_def transform_property_def
  address_str_def address_parts_def py_join_def and_then_def dict_get_def py_or_def
  MLS_CONFIGURED_def env_truthy_def env_on_def mls_request_def media_url_def
  raise_for_status_def response_json_def answers_def down_def all_down_def first_up_def
  media_answer_def listing_a_def listing_keyless_def listing_b_def listing_bad_def
  int_of_str_def strip_def py_isspace_def parse_digits_def is_digit_def
  INT_MAX_STR_DIGITS_def

lemma sample_batch_run:
  "fan_out env_on repr_whole first_up [listing_a, listing_keyless, listing_b] =
   Inr [[(''id'', JStr ''a''),
       (''images'', JList [JStr ''https://img.example/1.jpg'']),
       (''price'', JStr []), (''address'', JStr ''CA''),
       (''added'', JStr []), (''beds'', JInt 3), (''baths'', JInt 0),
       (''parking'', JInt 0), (''sqft'', JStr []), (''location'', JStr []),
       (''areaCode'', JStr []), (''propertyType'', JStr []),
       (''availableDate'', JStr []), (''leaseTerms'', JStr []),
       (''description'', JStr [])],
      [(''id'', JStr ''b''), (''images'', JList []), (''price'', JStr []),
       (''address'', JStr ''Toronto, CA''), (''added'', JStr []),
       (''beds'', JInt 0), (''baths'', JInt 0), (''parking'', JInt 0),
       (''sqft'', JStr []), (''location'', JStr ''Toronto''),
       (''areaCode'', JStr []), (''propertyType'', JStr []),
       (''availableDate'', JStr []), (''leaseTerms'', JStr []),
       (''description'', JStr [])]]"
  by (simp add: run_defs List.map_filter_simps enumerate_eq_zip)

lemma sample_batch_enrichable:
  "enrichable listing_a" "enrichable listing_keyless" "enrichable listing_b"
  by (simp_all add: enrichable_def transformable_def textual_def count_ok_def dict_get_def
      listing_a_def listing_keyless_def listing_b_def)

lemma listing_bad_raises: "transformer_raises listing_bad"
  by (simp add: transformer_raises_def run_defs)

lemma bad_batch_run: "fan_out env_on repr_whole all_down [listing_a, listing_bad] = Inl ValueError"
  by (simp add: run_defs enumerate_eq_zip)

lemma bad_batch_fetch:
  "fetch_mls_data env_on (answers 200 [] (Some bad_batch_answer))
     (properties_url env_on repr_whole 24 None None None None None None None None) =
   Inr (JList [listing_a, listing_bad])"
  by (simp add: fetch_mls_data_def env_on_configured answers_def and_then_def
      raise_for_status_def response_json_def bad_batch_answer_def dict_get_def)

text \<open>
  The theorem at a batch of three: the first listing gets its image, the second has no
  key and is dropped, the third one's media fetch fails and it is returned without images;
  and at a batch of two whose second listing has a bedroom count that is not a number.
\<close>

theorem fan_out_enrichment_witness:
  "enrichable listing_a \<and> enrichable listing_keyless \<and> enrichable listing_b
   \<and> has_key listing_a \<and> \<not> has_key listing_keyless \<and> has_key listing_b
   \<and> media_failed env_on repr_whole (first_up 2) (JStr ''b'')
   \<and> (\<exists>out. fan_out env_on repr_whole first_up [listing_a, listing_keyless, listing_b] = Inr out
         \<and> length out = 2
         \<and> map (\<lambda>v. dict_get v ''id'' JNull) out = [JStr ''a'', JStr ''b'']
         \<and> map (\<lambda>v. dict_get v ''images'' JNull) out =
             [JList [JStr ''https://img.example/1.jpg''], JList []])
   \<and> transformer_raises listing_bad
   \<and> fan_out env_on repr_whole all_down [listing_a, listing_bad] = Inl ValueError
   \<and> fetch_mls_data env_on (answers 200 [] (Some bad_batch_answer))
       (properties_url env_on repr_whole 24 None None None None None None None None) =
       Inr (JList [listing_a, listing_bad])
   \<and> raised_status
       (get_properties env_on repr_whole exc_name (answers 200 [] (Some bad_batch_answer))
          all_down 24 None None None None None None None None) = Some 500"
proof -
  have h: "\<forall>p \<in> set [listing_a, listing_keyless, listing_b]. enrichable p"
    by (simp add: sample_batch_enrichable)
  have k: "has_key listing_a \<and> \<not> has_key listing_keyless \<and> has_key listing_b"
    by (simp add: has_key_def dict_get_def listing_a_def listing_keyless_def listing_b_def)
  have f: "media_failed env_on repr_whole (first_up 2) (JStr ''b'')"
    by (simp add: media_failed_def first_up_def down_def)
  have b: "\<exists>p \<in> set [listing_a, listing_bad]. transformer_raises p"
    by (simp add: listing_bad_raises)
  show ?thesis
    using fan_out_enrichment [of "[listing_a, listing_keyless, listing_b]" env_on repr_whole
        first_up]
      fan_out_enrichment [of "[listing_a, listing_bad]" env_on repr_whole all_down
        "answers 200 [] (Some bad_batch_answer)" 24 None None None None None None None None
        exc_name]
      h k f b bad_batch_fetch
    by (simp add: sample_batch_enrichable sample_batch_run bad_batch_run listing_bad_raises
        dict_get_def)
qed

text \<open>
  A batch of one listing that has a key and a bedroom count that is not a number: the
  transformer raises, the fan-out returns no entry at all and \<^verbatim>\<open>GET /properties\<close> fails
  with status 500.
\<close>

theorem fan_out_counterexample:
  "has_key listing_bad
   \<and> fan_out env_on repr_whole all_down [listing_bad] = Inl ValueError
   \<and> raised_status
       (get_properties env_on repr_whole exc_name
          (answers 200 [] (Some (JObj [(''value'', JList [listing_bad])]))) all_down 24
          None None None None None None None None) = Some 500"
proof -
  have run: "fan_out env_on repr_whole all_down [listing_bad] = Inl ValueError"
    by (simp add: run_defs enumerate_eq_zip)
  have k: "has_key listing_bad"
    by (simp add: has_key_def listing_bad_def dict_get_def)
  have "get_properties env_on repr_whole exc_name
       (answers 200 [] (Some (JObj [(''value'', JList [listing_bad])]))) all_down 24
       None None None None None None None None =
     Inl (HTTPException 500 (''Error fetching properties: '' @ exc_name ValueError))"
    by (simp add: get_properties_def get_properties_body_def fetch_mls_data_def
        env_on_configured run answers_def and_then_def raise_for_status_def response_json_def
        dict_get_def)
  then show ?thesis using k run by (simp add: raised_status_def)
qed

section \<open>Properties of cart and wishlist\<close>

text \<open>
  C1. The row store answers the list request of user \<^verbatim>\<open>A\<close> with two rows of \<^verbatim>\<open>A\<close> and
  one of \<^verbatim>\<open>B\<close>: \<^verbatim>\<open>list_wishlist\<close> returns all three property ids.
\<close>

theorem list_wishlist_returns_foreign_rows:
  "list_wishlist env_on (answers 200 [] (Some foreign_rows)) ''A'' None =
     Inr (JObj [(''wishlist'', JList [JStr ''p1'', JStr ''p2'', JStr ''p3'']),
                (''user_id'', JStr ''A''), (''count'', JInt 3)])"
  by (simp add: list_wishlist_def answers_def and_then_def response_json_def foreign_rows_def
      store_row_def)

text \<open>
  \<^verbatim>\<open>list_cart\<close> on the same answer raises, and so it does whenever the rows all have a
  \<^verbatim>\<open>user_id\<close> and one of them is not the caller's.
\<close>

lemma list_cart_raises_on_foreign_rows:
  "list_cart env_on (answers 200 [] (Some foreign_rows)) ''A'' None =
     Inl (HTTPException 500 ''Data integrity error: cart contains items from other users'')"
  by (simp add: list_cart_def answers_def and_then_def response_json_def foreign_rows_def
      store_row_def)

lemma validate_user_isolation_foreign:
  assumes "\<forall>entry \<in> set entries. \<exists>owner. py_getitem entry ''user_id'' = Inr owner"
    and "\<exists>entry \<in> set entries. py_getitem entry ''user_id'' \<noteq> Inr (JStr user_id)"
  shows "validate_user_isolation user_id entries =
     Inl (HTTPException 500 ''Data integrity error: cart contains items from other users'')"
  using assms
proof (induction entries)
  case Nil
  then show ?case by simp
next
  case (Cons entry entries)
  then show ?case by (fastforce simp: and_then_def)
qed

lemma validate_user_isolation_never_passes:
  "\<exists>entry \<in> set entries. \<exists>owner. py_getitem entry ''user_id'' = Inr owner \<and> owner \<noteq> JStr user_id
   \<Longrightarrow> \<exists>e. validate_user_isolation user_id entries = Inl e"
proof (induction entries)
  case Nil
  then show ?case by simp
next
  case (Cons entry entries)
  then show ?case by (cases "py_getitem entry ''user_id''") (auto simp: and_then_def)
qed

lemma list_cart_fails_loud:
  assumes "send (list_cart_request cfg user_id auth_header) = Inr resp"
    and "resp_status resp = 200" and "resp_json resp = Some (JList rows)"
    and "\<forall>entry \<in> set rows. \<exists>owner. py_getitem entry ''user_id'' = Inr owner"
    and "\<exists>entry \<in> set rows. py_getitem entry ''user_id'' \<noteq> Inr (JStr user_id)"
  shows "list_cart cfg send user_id auth_header =
     Inl (HTTPException 500 ''Data integrity error: cart contains items from other users'')"
  using assms(1-3) validate_user_isolation_foreign [OF assms(4,5)]
  by (simp add: list_cart_def and_then_def response_json_def)

text \<open>
  C3. The row store answers the insert with 409: \<^verbatim>\<open>add_to_wishlist\<close> raises an
  \<^verbatim>\<open>HTTPException\<close> with that status.
\<close>

theorem add_to_wishlist_conflict_raises:
  "add_to_wishlist env_on (answers 409 ''duplicate key'' None) ''p1'' ''A'' None =
     Inl (HTTPException 409 ''duplicate key'')"
  by (simp add: add_to_wishlist_def answers_def and_then_def)

text \<open>
  \<^verbatim>\<open>add_to_cart\<close> takes the same answer for a success; \<^verbatim>\<open>add_to_wishlist\<close> never does.
\<close>

lemma add_to_cart_conflict_is_success:
  "send (add_to_cart_request cfg property_id user_id auth_header) = Inr resp \<Longrightarrow>
   resp_status resp = 409 \<Longrightarrow>
   add_to_cart cfg send property_id user_id auth_header =
     Inr (JObj [(''ok'', JBool True), (''message'', JStr ''Already in cart'')])"
  by (simp add: add_to_cart_def and_then_def)

lemma add_to_wishlist_conflict_is_error:
  "send (add_to_wishlist_request cfg property_id user_id auth_header) = Inr resp \<Longrightarrow>
   resp_status resp = 409 \<Longrightarrow>
   add_to_wishlist cfg send property_id user_id auth_header =
     Inl (HTTPException 409 (resp_text resp))"
  by (simp add: add_to_wishlist_def and_then_def)

section \<open>Time-outs of the outbound calls\<close>

lemma fetch_mls_data_timed:
  "\<forall>req. req_timeout req = Some (Finite 30) \<longrightarrow> send req = send' req \<Longrightarrow>
   fetch_mls_data cfg send url = fetch_mls_data cfg send' url"
  by (simp add: fetch_mls_data_def mls_request_def REQUEST_TIMEOUT_def)

lemma fetch_largest_media_timed:
  "\<forall>req. req_timeout req = Some (Finite 30) \<longrightarrow> send req = send' req \<Longrightarrow>
   fetch_largest_media cfg repr send k = fetch_largest_media cfg repr send' k"
  by (simp add: fetch_largest_media_def mls_request_def REQUEST_TIMEOUT_def)

text \<open>
  C8. The call of the listing fetch and the call of the media fetch are made with the
  time-out 30: the request carries it, and the two functions depend on the client only
  through requests that carry it. The six calls of the row store pass no time-out.
\<close>

theorem outbound_timeouts:
  "req_timeout (mls_request cfg url) = Some (Finite 30)
   \<and> ((\<forall>req. req_timeout req = Some (Finite 30) \<longrightarrow> send req = send' req) \<longrightarrow>
        fetch_mls_data cfg send url = fetch_mls_data cfg send' url
        \<and> fetch_largest_media cfg repr send listing_key =
            fetch_largest_media cfg repr send' listing_key)
   \<and> req_timeout (add_to_cart_request cfg property_id user_id auth_header) = None
   \<and> req_timeout (remove_from_cart_request cfg property_id user_id auth_header) = None
   \<and> req_timeout (list_cart_request cfg user_id auth_header) = None
   \<and> req_timeout (add_to_wishlist_request cfg property_id user_id auth_header) = None
   \<and> req_timeout (remove_from_wishlist_request cfg property_id user_id auth_header) = None
   \<and> req_timeout (list_wishlist_request cfg user_id auth_header) = None"
  using fetch_mls_data_timed [of send send' cfg url]
    fetch_largest_media_timed [of send send' cfg repr listing_key]
  by (simp add: mls_request_def REQUEST_TIMEOUT_def add_to_cart_request_def
      remove_from_cart_request_def list_cart_request_def add_to_wishlist_request_def
      remove_from_wishlist_request_def list_wishlist_request_def)

lemma answers_timed_agree:
  "req_timeout req = Some (Finite 30) \<Longrightarrow>
   answers_timed status body decoded req = answers status body decoded req"
  by (simp add: answers_timed_def)

text \<open>
  The theorem at a client that answers only the calls made with the time-out 30: the
  listing fetch gets its answer, \<^verbatim>\<open>add_to_cart\<close> does not.
\<close>

theorem outbound_timeouts_witness:
  "req_timeout (mls_request env_on ''u'') = Some (Finite 30)
   \<and> fetch_mls_data env_on (answers_timed 200 [] (Some (JObj []))) ''u'' =
       fetch_mls_data env_on (answers 200 [] (Some (JObj []))) ''u''
   \<and> fetch_mls_data env_on (answers_timed 200 [] (Some (JObj []))) ''u'' = Inr (JList [])
   \<and> add_to_cart env_on (answers_timed 201 [] None) ''p1'' ''A'' None = Inl TransportError"
proof -
  have agree: "\<forall>req. req_timeout req = Some (Finite 30) \<longrightarrow>
      answers_timed 200 [] (Some (JObj [])) req = answers 200 [] (Some (JObj [])) req"
    by (simp add: answers_timed_agree)
  have run: "fetch_mls_data env_on (answers 200 [] (Some (JObj []))) ''u'' = Inr (JList [])"
    by (simp add: fetch_mls_data_def MLS_CONFIGURED_def env_truthy_def env_on_def answers_def
        and_then_def raise_for_status_def response_json_def dict_get_def)
  have cart: "add_to_cart env_on (answers_timed 201 [] None) ''p1'' ''A'' None = Inl TransportError"
    by (simp add: add_to_cart_def add_to_cart_request_def answers_timed_def and_then_def)
  show ?thesis
    using outbound_timeouts [of env_on "''u''" "answers_timed 200 [] (Some (JObj []))"
        "answers 200 [] (Some (JObj []))" repr_whole "JStr ''k''" "''p1''" "''A''" None]
      agree run cart
    by simp
qed

text \<open>
  The insert into the cart is a call without a time-out.
\<close>

theorem row_store_timeout_counterexample:
  "req_timeout (add_to_cart_request env_on ''p1'' ''A'' None) = None
   \<and> req_timeout (add_to_cart_request env_on ''p1'' ''A'' None) \<noteq> Some (Finite 30)"
  by (simp add: add_to_cart_request_def)

section \<open>The concurrency cap\<close>

lemma count_list_update:
  "i < length xs \<Longrightarrow>
   length (filter P (xs[i := y])) + (if P (xs ! i) then 1 else 0) =
   length (filter P xs) + (if P y then 1 else 0)"
proof (induction xs arbitrary: i)
  case Nil
  then show ?case by simp
next
  case (Cons x xs)
  show ?case
  proof (cases i)
    case 0
    then show ?thesis by simp
  next
    case (Suc j)
    then have "j < length xs" using Cons.prems by simp
    from Cons.IH [OF this] show ?thesis using Suc by simp
  qed
qed

lemma step_invariant:
  assumes "step s s'" and "permits s + in_flight s = CONCURRENCY_LIMIT"
  shows "permits s' + in_flight s' = CONCURRENCY_LIMIT"
  using assms
proof (induction rule: step.induct)
  case (acquire i s)
  from count_list_update [OF acquire(1), of "\<lambda>p. p = Fetching" Fetching] acquire
  show ?case by (simp add: in_flight_def)
next
  case (release i s)
  from count_list_update [OF release(1), of "\<lambda>p. p = Fetching" Transforming] release
  show ?case by (simp add: in_flight_def)
next
  case (finish i s)
  from count_list_update [OF finish(1), of "\<lambda>p. p = Fetching" Done] finish
  show ?case by (simp add: in_flight_def)
qed

lemma step_length: "step s s' \<Longrightarrow> length (phases s') = length (phases s)"
  by (induction rule: step.induct) simp_all

lemma reachable_invariant:
  "reachable n s \<Longrightarrow> permits s + in_flight s = CONCURRENCY_LIMIT \<and> length (phases s) = n"
proof (induction rule: reachable.induct)
  case (start n)
  then show ?case by (simp add: initial_def in_flight_def)
next
  case (after n s s')
  then show ?case using step_invariant step_length by simp
qed

text \<open>
  C9. In every state the units of work can reach, at most 4 media fetches are in flight:
  the permits left and the fetches in flight add up to 4, so a unit holds a permit exactly
  while its media fetch is in flight, and has given it back when it transforms.
\<close>

theorem at_most_four_media_fetches:
  assumes "reachable n s"
  shows "in_flight s \<le> 4 \<and> permits s + in_flight s = 4 \<and> length (phases s) = n"
  using reachable_invariant [OF assms] by (simp add: CONCURRENCY_LIMIT_def)

lemma busy_reachable: "reachable 6 busy"
proof -
  have r0: "reachable 6 \<lparr>permits = 4, phases = [Waiting, Waiting, Waiting, Waiting, Waiting, Waiting]\<rparr>"
    using start [of 6] by (simp add: initial_def CONCURRENCY_LIMIT_def numeral_eq_Suc)
  have r1: "reachable 6 \<lparr>permits = 3, phases = [Waiting, Waiting, Fetching, Waiting, Waiting, Waiting]\<rparr>"
    using after [OF r0 acquire [of 2]] by simp
  have r2: "reachable 6 \<lparr>permits = 4, phases = [Waiting, Waiting, Transforming, Waiting, Waiting, Waiting]\<rparr>"
    using after [OF r1 release [of 2]] by simp
  have r3: "reachable 6 \<lparr>permits = 4, phases = [Waiting, Waiting, Done, Waiting, Waiting, Waiting]\<rparr>"
    using after [OF r2 finish [of 2]] by simp
  have r4: "reachable 6 \<lparr>permits = 3, phases = [Fetching, Waiting, Done, Waiting, Waiting, Waiting]\<rparr>"
    using after [OF r3 acquire [of 0]] by simp
  have r5: "reachable 6 \<lparr>permits = 2, phases = [Fetching, Fetching, Done, Waiting, Waiting, Waiting]\<rparr>"
    using after [OF r4 acquire [of 1]] by simp
  have r6: "reachable 6 \<lparr>permits = 1, phases = [Fetching, Fetching, Done, Fetching, Waiting, Waiting]\<rparr>"
    using after [OF r5 acquire [of 3]] by simp
  have r7: "reachable 6 \<lparr>permits = 0, phases = [Fetching, Fetching, Done, Fetching, Fetching, Waiting]\<rparr>"
    using after [OF r6 acquire [of 4]] by simp
  then show ?thesis by (simp add: busy_def)
qed

text \<open>
  The theorem at a state of six units with four fetches in flight and no permit left.
\<close>

theorem at_most_four_media_fetches_witness:
  "reachable 6 busy \<and> in_flight busy = 4 \<and> in_flight busy \<le> 4 \<and> permits busy = 0"
  using at_most_four_media_fetches [OF busy_reachable] busy_reachable
  by (simp add: busy_def in_flight_def)

end
